theory Spec2Isabelle
  imports Main "HOL-Library.Sublist" "HOL-Library.Char_ord" "HOL-Library.List_Lexorder"
    "HOL-Library.Word"
begin

section \<open>JavaScript values\<close>

text \<open>
  The hooks of \<^verbatim>\<open>globalhandlers.ts\<close> receive values of type \<^verbatim>\<open>any\<close>. A value is a primitive
  or an object. Strings are lists of 8-bit code units. A number is an integer from
  \<open>- 2 ^ 53\<close> to \<open>2 ^ 53 - 1\<close>, read off a 54-bit word with \<open>sint\<close>: these are numbers that
  JavaScript holds exactly and prints in plain decimal digits. No arithmetic is done on
  numbers here; a numeral outside the range denotes the word it wraps to, so every value of
  the type is a number of the range. Fractions, larger magnitudes, \<^verbatim>\<open>NaN\<close>, the infinities
  and negative zero are outside the model. An
  object carries its class (what \<^verbatim>\<open>Object.prototype.toString\<close> reports), its own enumerable
  properties (what \<^verbatim>\<open>Object.keys\<close> lists) and its other properties (own non-enumerable
  ones such as an error's \<^verbatim>\<open>message\<close>, and inherited ones). A property is a value or an
  accessor whose getter throws.
\<close>

datatype primitive =
  Undefined | Null | Boolean bool | Number "54 word" | Str string | Symbol string

datatype objclass = PlainObject | ErrorObject | ErrorEventObject

datatype 'v slot = Value 'v | ThrowingGetter

datatype jsval =
    Prim primitive
  | Obj objclass "(string \<times> jsval slot) list" "(string \<times> jsval slot) list"

datatype exn = TypeError | GetterError

abbreviation undefined_value :: jsval where
  "undefined_value \<equiv> Prim Undefined"

abbreviation JStr :: "string \<Rightarrow> jsval" where
  "JStr s \<equiv> Prim (Str s)"

abbreviation JBool :: "bool \<Rightarrow> jsval" where
  "JBool b \<equiv> Prim (Boolean b)"

text \<open>ToBoolean, as used by \<^verbatim>\<open>&&\<close>, \<^verbatim>\<open>||\<close>, \<^verbatim>\<open>?:\<close> and \<^verbatim>\<open>if\<close>.\<close>

fun truthy :: "jsval \<Rightarrow> bool" where
  "truthy (Prim Undefined) = False"
| "truthy (Prim Null) = False"
| "truthy (Prim (Boolean b)) = b"
| "truthy (Prim (Number n)) = (n \<noteq> 0)"
| "truthy (Prim (Str s)) = (s \<noteq> [])"
| "truthy (Prim (Symbol d)) = True"
| "truthy (Obj c own other) = True"

text \<open>
  Property read \<^verbatim>\<open>v.k\<close>: a TypeError on \<^verbatim>\<open>undefined\<close> and \<^verbatim>\<open>null\<close>; \<^verbatim>\<open>undefined\<close> on the other
  primitives (none of the properties read by this file exists on their prototypes); on an
  object the own enumerable properties are searched before the others.
\<close>

fun Get :: "jsval \<Rightarrow> string \<Rightarrow> exn + jsval" where
  "Get (Prim Undefined) k = Inl TypeError"
| "Get (Prim Null) k = Inl TypeError"
| "Get (Prim p) k = Inr undefined_value"
| "Get (Obj c own other) k =
     (case map_of (own @ other) k of
        None \<Rightarrow> Inr undefined_value
      | Some (Value v) \<Rightarrow> Inr v
      | Some ThrowingGetter \<Rightarrow> Inl GetterError)"

text \<open>The operator \<^verbatim>\<open>k in v\<close>: a TypeError when the right operand is not an object.\<close>

fun HasProperty :: "string \<Rightarrow> jsval \<Rightarrow> exn + bool" where
  "HasProperty k (Prim p) = Inl TypeError"
| "HasProperty k (Obj c own other) = Inr (k \<in> set (map fst (own @ other)))"

text \<open>\<^verbatim>\<open>Object.keys\<close> of an object with the given own enumerable properties.\<close>

definition Object_keys :: "(string \<times> jsval slot) list \<Rightarrow> string list" where
  "Object_keys own = remdups (map fst own)"

text \<open>\<^verbatim>\<open>Array.prototype.sort\<close> without a comparator, on strings: code-unit order.\<close>

definition Array_sort :: "string list \<Rightarrow> string list" where
  "Array_sort ks = sort ks"

text \<open>
  Modelled from the spec: the type tests \<^verbatim>\<open>isString\<close>, \<^verbatim>\<open>isPrimitive\<close>, \<^verbatim>\<open>isError\<close> and
  \<^verbatim>\<open>isErrorEvent\<close> of \<^verbatim>\<open>@sentry/utils\<close>, whose source is not part of this file. The spec:
  "if it is a string"; "a primitive value (not an object/array)"; "behaves as a structured
  failure object"; "an event-like wrapper".
\<close>

fun isString :: "jsval \<Rightarrow> bool" where
  "isString (Prim (Str s)) = True"
| "isString v = False"

fun isPrimitive :: "jsval \<Rightarrow> bool" where
  "isPrimitive (Prim p) = True"
| "isPrimitive (Obj c own other) = False"

fun isError :: "jsval \<Rightarrow> bool" where
  "isError (Obj ErrorObject own other) = True"
| "isError v = False"

fun isErrorEvent :: "jsval \<Rightarrow> bool" where
  "isErrorEvent (Obj ErrorEventObject own other) = True"
| "isErrorEvent v = False"

text \<open>
  Number to string, for the numbers of the model: a minus sign for a negative number, then
  the decimal digits of the magnitude, most significant first, without leading zeros.
  ToString on the primitives (a template literal \<^verbatim>\<open>`${v}`\<close>): a symbol cannot be converted
  and throws a TypeError.
\<close>

definition digit_char :: "nat \<Rightarrow> char" where
  "digit_char d = ''0123456789'' ! d"

fun digits :: "nat \<Rightarrow> string" where
  "digits n = (if n < 10 then [digit_char n] else digits (n div 10) @ [digit_char (n mod 10)])"

declare digits.simps [simp del]

definition Number_toString :: "54 word \<Rightarrow> string" where
  "Number_toString n =
     (if sint n < 0 then CHR ''-'' # digits (nat (- sint n)) else digits (nat (sint n)))"

fun ToString :: "primitive \<Rightarrow> exn + string" where
  "ToString Undefined = Inr ''undefined''"
| "ToString Null = Inr ''null''"
| "ToString (Boolean b) = Inr (if b then ''true'' else ''false'')"
| "ToString (Number n) = Inr (Number_toString n)"
| "ToString (Str s) = Inr s"
| "ToString (Symbol d) = Inl TypeError"

text \<open>
  What it is for a string to be the decimal numeral of a natural number: it is not empty,
  holds decimal digits only, starts with the digit zero only when it is \<^verbatim>\<open>"0"\<close>, and its
  digits, read from the left, give the number.
\<close>

definition decimal_digit :: "char \<Rightarrow> bool" where
  "decimal_digit c = (c \<in> set ''0123456789'')"

definition decimal_value :: "string \<Rightarrow> nat" where
  "decimal_value str = foldl (\<lambda>a c. 10 * a + (of_char c - 48)) 0 str"

definition canonical_decimal :: "string \<Rightarrow> nat \<Rightarrow> bool" where
  "canonical_decimal str n =
     (str \<noteq> [] \<and> list_all decimal_digit str
      \<and> (hd str = CHR ''0'' \<longrightarrow> str = ''0'') \<and> decimal_value str = n)"

section \<open>Regular expressions\<close>

text \<open>
  A backtracking matcher for the fragment of JavaScript regular expressions that
  \<^verbatim>\<open>ERROR_TYPES_RE\<close> uses: literals, a character class, greedy \<^verbatim>\<open>.*\<close>, \<^verbatim>\<open>$\<close>, sequence,
  alternation (left first), the greedy optional \<^verbatim>\<open>?\<close> and capture groups. The matcher is
  written with continuations: a continuation receives the rest of the input and the
  captures so far. A capture group that does not take part in the match stays unset,
  which \<^verbatim>\<open>String.prototype.match\<close> reports as \<^verbatim>\<open>undefined\<close>.
\<close>

datatype regex =
    Lit string
  | CharClass "char list"
  | DotStar
  | EndOfInput
  | Seq regex regex
  | Alt regex regex
  | Opt regex
  | Group nat regex

type_synonym captures = "nat \<Rightarrow> string option"

type_synonym cont = "string \<Rightarrow> captures \<Rightarrow> captures option"

text \<open>Without the \<^verbatim>\<open>s\<close> flag the dot matches any code unit but a line terminator.\<close>

definition line_terminator :: "char \<Rightarrow> bool" where
  "line_terminator x = (x = CHR 0x0A \<or> x = CHR 0x0D)"

fun greedy_dots :: "cont \<Rightarrow> string \<Rightarrow> captures \<Rightarrow> captures option" where
  "greedy_dots k [] c = k [] c"
| "greedy_dots k (x # xs) c =
     (if line_terminator x then k (x # xs) c
      else (case greedy_dots k xs c of Some r \<Rightarrow> Some r | None \<Rightarrow> k (x # xs) c))"

primrec rmatch :: "regex \<Rightarrow> cont \<Rightarrow> cont" where
  "rmatch (Lit w) k = (\<lambda>s c. if prefix w s then k (drop (length w) s) c else None)"
| "rmatch (CharClass cs) k =
     (\<lambda>s c. case s of [] \<Rightarrow> None | x # xs \<Rightarrow> if x \<in> set cs then k xs c else None)"
| "rmatch DotStar k = greedy_dots k"
| "rmatch EndOfInput k = (\<lambda>s c. if s = [] then k s c else None)"
| "rmatch (Seq a b) k = rmatch a (rmatch b k)"
| "rmatch (Alt a b) k =
     (\<lambda>s c. case rmatch a k s c of Some r \<Rightarrow> Some r | None \<Rightarrow> rmatch b k s c)"
| "rmatch (Opt a) k =
     (\<lambda>s c. case rmatch a k s c of Some r \<Rightarrow> Some r | None \<Rightarrow> k s c)"
| "rmatch (Group n a) k =
     (\<lambda>s c. rmatch a (\<lambda>s' c'. k s' (c'(n \<mapsto> take (length s - length s') s))) s c)"

text \<open>
  \<^verbatim>\<open>message.match(re)\<close> for a pattern that starts with \<^verbatim>\<open>^\<close> and has no flags: the only
  position where a match can start is the start of the input, so the matcher runs there.
  The result is \<^verbatim>\<open>null\<close> (\<open>None\<close>) or the captures.
\<close>

definition String_match :: "regex \<Rightarrow> string \<Rightarrow> captures option" where
  "String_match re s = rmatch re (\<lambda>s' c. Some c) s Map.empty"

text \<open>
  \<^verbatim>\<open>/^(?:[Uu]ncaught (?:exception: )?)?(?:((?:Eval|Internal|Range|Reference|Syntax|Type|URI|)Error): )?(.*)$/\<close>
\<close>

definition ERROR_TYPES_RE :: regex where
  "ERROR_TYPES_RE =
     Seq (Opt (Seq (CharClass ''Uu'') (Seq (Lit ''ncaught '') (Opt (Lit ''exception: '')))))
    (Seq (Opt (Seq (Group 1
                     (Seq (Alt (Lit ''Eval'') (Alt (Lit ''Internal'') (Alt (Lit ''Range'')
                          (Alt (Lit ''Reference'') (Alt (Lit ''Syntax'') (Alt (Lit ''Type'')
                          (Alt (Lit ''URI'') (Lit '''')))))))) (Lit ''Error'')))
                   (Lit '': '')))
    (Seq (Group 2 DotStar) EndOfInput))"

definition UNKNOWN_FUNCTION :: string where
  "UNKNOWN_FUNCTION = ''?''"

section \<open>Stack traces\<close>

record StackFrame =
  frame_args :: "jsval list"
  frame_column :: jsval
  frame_func :: string
  frame_line :: jsval
  frame_url :: jsval

text \<open>The fields of \<^verbatim>\<open>TraceKitStackTrace\<close> that this file reads or writes. An absent field
  is \<^verbatim>\<open>undefined\<close>.\<close>

record StackTrace =
  st_mechanism :: string
  st_message :: jsval
  st_mode :: string
  st_name :: jsval
  st_stack :: "StackFrame list"
  st_original :: jsval

text \<open>
  Lines 113--137 of \<^verbatim>\<open>_installGlobalOnErrorHandler\<close>: the trace built when the error is not
  an error object. \<open>href\<close> is what \<^verbatim>\<open>getLocationHref()\<close> returns.
\<close>

definition label_of_message :: "jsval \<Rightarrow> jsval \<times> jsval" where
  "label_of_message message =
     (case message of
        Prim (Str m) \<Rightarrow>
          (case String_match ERROR_TYPES_RE m of
             None \<Rightarrow> (undefined_value, message)
           | Some groups \<Rightarrow>
               (case groups 1 of None \<Rightarrow> undefined_value | Some g \<Rightarrow> JStr g,
                case groups 2 of None \<Rightarrow> undefined_value | Some g \<Rightarrow> JStr g))
      | _ \<Rightarrow> (undefined_value, message))"

definition synthetic_stack :: "string \<Rightarrow> jsval \<Rightarrow> jsval \<Rightarrow> jsval \<Rightarrow> jsval \<Rightarrow> StackTrace" where
  "synthetic_stack href message0 url0 line0 column0 =
     (let (name, message) = label_of_message message0 in
      \<lparr> st_mechanism = ''onerror'',
        st_message = message,
        st_mode = ''onerror'',
        st_name = name,
        st_stack = [\<lparr> frame_args = [],
                      frame_column = column0,
                      frame_func = UNKNOWN_FUNCTION,
                      frame_line = line0,
                      frame_url = (if truthy url0 then url0 else JStr href) \<rparr>],
        st_original = undefined_value \<rparr>)"

section \<open>Telemetry events\<close>

datatype Severity = Severity_Fatal | Severity_Error | Severity_Warning | Severity_Info

record Mechanism =
  mech_data :: "(string \<times> jsval) list"
  mech_handled :: bool
  mech_type :: string

record ExceptionValue =
  ex_type :: jsval
  ex_value :: jsval
  ex_stacktrace :: "StackFrame list option"
  ex_mechanism :: "Mechanism option"

text \<open>An event: \<open>ev_values\<close> is \<^verbatim>\<open>event.exception.values\<close> and \<open>ev_extra\<close> is \<^verbatim>\<open>event.extra\<close>; the
  empty list stands for an absent field.\<close>

record Event =
  ev_level :: "Severity option"
  ev_values :: "ExceptionValue list"
  ev_extra :: "(string \<times> jsval) list"

text \<open>The second argument of \<^verbatim>\<open>captureEvent\<close>: \<^verbatim>\<open>{ data: { stack }, originalException }\<close>.\<close>

record EventHint =
  hint_stack :: StackTrace
  originalException :: jsval

section \<open>Handlers, the integration and its surroundings\<close>

text \<open>
  A function object that can sit in \<^verbatim>\<open>window.onerror\<close> or \<^verbatim>\<open>window.onunhandledrejection\<close>:
  a function of the host, or one of the two closures that the install operations create.
\<close>

datatype handler = HostFunction nat | OnErrorWrapper | OnUnhandledRejectionWrapper

text \<open>What a hook invocation does to the outside, in order.\<close>

datatype action = CaptureEvent Event EventHint | CallHandler handler "jsval list"

record ClientOptions =
  maxValueLength :: "nat option"

text \<open>
  The collaborators that are imported by \<^verbatim>\<open>globalhandlers.ts\<close> and are not part of it, as
  they answer during one hook invocation: \<open>hasIntegration\<close> is whether
  \<^verbatim>\<open>getCurrentHub().getIntegration(GlobalHandlers)\<close> is truthy, \<open>client\<close> is
  \<^verbatim>\<open>getCurrentHub().getClient()\<close> with its options, \<open>apply_handler\<close> is the value that a
  handler returns on the given arguments.
\<close>

record env =
  hasIntegration :: bool
  shouldIgnoreOnError :: bool
  client :: "ClientOptions option"
  getLocationHref :: string
  computeStackTrace :: "jsval \<Rightarrow> StackTrace"
  eventFromStacktrace :: "StackTrace \<Rightarrow> Event"
  normalize_util :: "jsval \<Rightarrow> jsval"
  JSON_stringify :: "jsval \<Rightarrow> string"
  truncate_util :: "string \<Rightarrow> nat \<Rightarrow> string"
  normalizeToSize :: "jsval \<Rightarrow> jsval"
  keysToEventMessage :: "string list \<Rightarrow> string"
  apply_handler :: "handler \<Rightarrow> jsval list \<Rightarrow> jsval"

text \<open>
  The fields of a \<^verbatim>\<open>GlobalHandlers\<close> instance, together with the global state that it
  writes: the two hook slots of \<^verbatim>\<open>window\<close>, \<^verbatim>\<open>Error.stackTraceLimit\<close> and the lines given to
  \<^verbatim>\<open>logger.log\<close>.
\<close>

record state =
  options_onerror :: bool
  options_onunhandledrejection :: bool
  oldOnErrorHandler :: "handler option"
  oldOnUnhandledRejectionHandler :: "handler option"
  onErrorHandlerInstalled :: bool
  onUnhandledRejectionHandlerInstalled :: bool
  global_onerror :: "handler option"
  global_onunhandledrejection :: "handler option"
  Error_stackTraceLimit :: int
  logger_output :: "string list"

section \<open>Installation\<close>

definition installGlobalOnErrorHandler :: "state \<Rightarrow> state" where
  "installGlobalOnErrorHandler s =
     (if onErrorHandlerInstalled s then s
      else s\<lparr> oldOnErrorHandler := global_onerror s,
              global_onerror := Some OnErrorWrapper,
              onErrorHandlerInstalled := True \<rparr>)"

definition installGlobalOnUnhandledRejectionHandler :: "state \<Rightarrow> state" where
  "installGlobalOnUnhandledRejectionHandler s =
     (if onUnhandledRejectionHandlerInstalled s then s
      else s\<lparr> oldOnUnhandledRejectionHandler := global_onunhandledrejection s,
              global_onunhandledrejection := Some OnUnhandledRejectionWrapper,
              onUnhandledRejectionHandlerInstalled := True \<rparr>)"

definition logger_log :: "string \<Rightarrow> state \<Rightarrow> state" where
  "logger_log text s = s\<lparr> logger_output := logger_output s @ [text] \<rparr>"

definition setupOnce :: "state \<Rightarrow> state" where
  "setupOnce s =
     (let s1 = s\<lparr> Error_stackTraceLimit := 50 \<rparr>;
          s2 = (if options_onerror s1
                then installGlobalOnErrorHandler
                       (logger_log ''Global Handler attached: onerror'' s1)
                else s1)
      in if options_onunhandledrejection s2
         then installGlobalOnUnhandledRejectionHandler
                (logger_log ''Global Handler attached: onunhandledrejection'' s2)
         else s2)"

section \<open>Building the event\<close>

text \<open>
  Modelled from the spec: \<^verbatim>\<open>addExceptionTypeValue\<close> of \<^verbatim>\<open>@sentry/utils\<close>, whose source is not
  part of this file. The spec (4.4, step 7): "Attach an ExceptionValue carrying the
  fallback type/value and a mechanism of { data, handled: false, type: handlerName },
  ensuring every event has exactly one guaranteed exception entry even when the underlying
  conversion produced none." The guaranteed entry is the first one; the fallback type and
  value stand in where the entry has no (truthy) type or value of its own.
\<close>

definition addExceptionTypeValue :: "Event \<Rightarrow> string \<Rightarrow> string \<Rightarrow> Mechanism \<Rightarrow> Event" where
  "addExceptionTypeValue event fallbackValue fallbackType mechanism =
     (let entry = (case ev_values event of
                     [] \<Rightarrow> \<lparr> ex_type = undefined_value, ex_value = undefined_value,
                             ex_stacktrace = None, ex_mechanism = None \<rparr>
                   | v # vs \<Rightarrow> v);
          entry' = entry\<lparr> ex_value := (if truthy (ex_value entry)
                                         then ex_value entry else JStr fallbackValue),
                          ex_type := (if truthy (ex_type entry)
                                        then ex_type entry else JStr fallbackType),
                          ex_mechanism := Some mechanism \<rparr>
      in event\<lparr> ev_values := entry' # tl (ev_values event) \<rparr>)"

text \<open>Lines 206--213 of \<^verbatim>\<open>_eventFromGlobalHandler\<close>: the assignment to \<^verbatim>\<open>stacktrace.message\<close>.\<close>

definition repair_message :: "StackTrace \<Rightarrow> exn + StackTrace" where
  "repair_message stacktrace =
     (if \<not> isString (st_message stacktrace) \<and> st_mechanism stacktrace \<noteq> ''onunhandledrejection''
      then (case Get (st_message stacktrace) ''error'' of
              Inl x \<Rightarrow> Inl x
            | Inr err \<Rightarrow>
                if truthy err
                then (case Get err ''message'' of
                        Inl x \<Rightarrow> Inl x
                      | Inr m \<Rightarrow>
                          Inr (stacktrace\<lparr> st_message :=
                                 (if isString m then m else JStr ''No error message'') \<rparr>))
                else Inr (stacktrace\<lparr> st_message := JStr ''No error message'' \<rparr>))
      else Inr stacktrace)"

text \<open>The \<^verbatim>\<open>data\<close> of the mechanism: \<^verbatim>\<open>mode\<close> always, \<^verbatim>\<open>message\<close> and \<^verbatim>\<open>name\<close> when truthy.\<close>

definition mechanism_data :: "StackTrace \<Rightarrow> (string \<times> jsval) list" where
  "mechanism_data stacktrace =
     [(''mode'', JStr (st_mode stacktrace))]
     @ (if truthy (st_message stacktrace) then [(''message'', st_message stacktrace)] else [])
     @ (if truthy (st_name stacktrace) then [(''name'', st_name stacktrace)] else [])"

text \<open>\<^verbatim>\<open>_eventFromIncompleteRejection\<close>.\<close>

definition eventFromIncompleteRejection ::
    "env \<Rightarrow> StackTrace \<Rightarrow> string \<Rightarrow> jsval \<Rightarrow> exn + Event" where
  "eventFromIncompleteRejection env stacktrace handler error =
     (let built =
        (case error of
           Prim p \<Rightarrow>
             (case ToString p of
                Inl x \<Rightarrow> Inl x
              | Inr text \<Rightarrow>
                  Inr \<lparr> ev_level = Some Severity_Error,
                        ev_values =
                          [\<lparr> ex_type = JStr ''UnhandledRejection'',
                             ex_value = JStr (''Non-Error promise rejection captured with value: '' @ text),
                             ex_stacktrace = None, ex_mechanism = None \<rparr>],
                        ev_extra = [] \<rparr>)
         | Obj c own other \<Rightarrow>
             Inr \<lparr> ev_level = Some Severity_Error,
                   ev_values =
                     [\<lparr> ex_type = JStr ''UnhandledRejection'',
                        ex_value = JStr (''Non-Error promise rejection captured with keys: ''
                                         @ keysToEventMessage env (Array_sort (Object_keys own))),
                        ex_stacktrace = None, ex_mechanism = None \<rparr>],
                   ev_extra = [(''__serialized__'', normalizeToSize env error)] \<rparr>)
      in case built of
           Inl x \<Rightarrow> Inl x
         | Inr event \<Rightarrow>
             (case ev_values event of
                [] \<Rightarrow> Inr event
              | v # vs \<Rightarrow>
                  Inr (event\<lparr> ev_values :=
                         v\<lparr> ex_mechanism := Some \<lparr> mech_data = mechanism_data stacktrace,
                                                    mech_handled = False,
                                                    mech_type = handler \<rparr> \<rparr> # vs \<rparr>)))"

text \<open>
  \<^verbatim>\<open>_eventFromGlobalHandler\<close>. The function assigns to a field of its argument, and its
  caller goes on to use that object, so the trace is returned with the event.
\<close>

definition eventFromGlobalHandler ::
    "env \<Rightarrow> StackTrace \<Rightarrow> string \<Rightarrow> jsval \<Rightarrow> exn + (Event \<times> StackTrace)" where
  "eventFromGlobalHandler env stacktrace0 handler error =
     (case repair_message stacktrace0 of
        Inl x \<Rightarrow> Inl x
      | Inr stacktrace \<Rightarrow>
          if handler = ''onunhandledrejection'' \<and> st_mode stacktrace = ''failed''
          then (case eventFromIncompleteRejection env stacktrace handler error of
                  Inl x \<Rightarrow> Inl x
                | Inr event \<Rightarrow> Inr (event, stacktrace))
          else
            (let event = eventFromStacktrace env stacktrace;
                 data = mechanism_data stacktrace;
                 limit = (case client env of
                            None \<Rightarrow> 250
                          | Some opts \<Rightarrow>
                              (case maxValueLength opts of
                                 None \<Rightarrow> 250
                               | Some n \<Rightarrow> if n = 0 then 250 else n));
                 fallbackValue =
                   (if truthy (st_original stacktrace)
                    then truncate_util env
                           (JSON_stringify env (normalize_util env (st_original stacktrace))) limit
                    else []);
                 fallbackType =
                   (if handler = ''onunhandledrejection'' then ''UnhandledRejection'' else ''Error'')
             in Inr (addExceptionTypeValue event fallbackValue fallbackType
                       \<lparr> mech_data = data, mech_handled = False, mech_type = handler \<rparr>,
                     stacktrace)))"

section \<open>The hook wrappers\<close>

text \<open>The \<open>i\<close>-th actual argument; a missing argument reads as \<^verbatim>\<open>undefined\<close>.\<close>

definition arg :: "jsval list \<Rightarrow> nat \<Rightarrow> jsval" where
  "arg arguments i = (if i < length arguments then arguments ! i else undefined_value)"

text \<open>\<^verbatim>\<open>error && error.__sentry_own_request__ === true\<close>\<close>

definition isFailedOwnDelivery :: "jsval \<Rightarrow> exn + bool" where
  "isFailedOwnDelivery error =
     (if truthy error
      then (case Get error ''__sentry_own_request__'' of
              Inl x \<Rightarrow> Inl x
            | Inr v \<Rightarrow> Inr (v = JBool True))
      else Inr False)"

text \<open>Lines 104 and 106: \<^verbatim>\<open>isErrorEvent(e) ? e.error : e\<close> and the same for the message.\<close>

definition onerror_error :: "jsval \<Rightarrow> exn + jsval" where
  "onerror_error e = (if isErrorEvent e then Get e ''error'' else Inr e)"

definition onerror_message :: "jsval \<Rightarrow> exn + jsval" where
  "onerror_message msg = (if isErrorEvent msg then Get msg ''message'' else Inr msg)"

text \<open>Lines 109--138: the trace of the synchronous hook.\<close>

definition onerror_stack :: "env \<Rightarrow> jsval \<Rightarrow> jsval \<Rightarrow> jsval \<Rightarrow> jsval \<Rightarrow> jsval \<Rightarrow> StackTrace" where
  "onerror_stack env error message url line column =
     (if truthy error \<and> isError error
      then (computeStackTrace env error)\<lparr> st_mechanism := ''onerror'' \<rparr>
      else synthetic_stack (getLocationHref env) message url line column)"

text \<open>Lines 97--100 and 148--152: the call of the captured handler, or \<^verbatim>\<open>false\<close>.\<close>

definition chain_onerror :: "env \<Rightarrow> state \<Rightarrow> jsval list \<Rightarrow> action list \<times> (exn + jsval)" where
  "chain_onerror env s arguments =
     (case oldOnErrorHandler s of
        Some h \<Rightarrow> ([CallHandler h arguments], Inr (apply_handler env h arguments))
      | None \<Rightarrow> ([], Inr (JBool False)))"

text \<open>
  The closure stored in \<^verbatim>\<open>window.onerror\<close>, lines 93--153. The result is what the
  invocation did to the outside, and the value it returned or the exception it threw.
\<close>

definition onerror_wrapper :: "env \<Rightarrow> state \<Rightarrow> jsval list \<Rightarrow> action list \<times> (exn + jsval)" where
  "onerror_wrapper env s arguments =
     (if \<not> hasIntegration env then chain_onerror env s arguments
      else
        (case onerror_error (arg arguments 4) of
           Inl x \<Rightarrow> ([], Inl x)
         | Inr error \<Rightarrow>
        (case onerror_message (arg arguments 0) of
           Inl x \<Rightarrow> ([], Inl x)
         | Inr message \<Rightarrow>
        (let stack = onerror_stack env error message
                       (arg arguments 1) (arg arguments 2) (arg arguments 3)
         in case isFailedOwnDelivery error of
              Inl x \<Rightarrow> ([], Inl x)
            | Inr own \<Rightarrow>
                if \<not> shouldIgnoreOnError env \<and> \<not> own
                then (case eventFromGlobalHandler env stack ''onerror'' error of
                        Inl x \<Rightarrow> ([], Inl x)
                      | Inr (event, stack') \<Rightarrow>
                          (case chain_onerror env s arguments of
                             (acts, r) \<Rightarrow>
                               (CaptureEvent event
                                  \<lparr> hint_stack = stack', originalException = error \<rparr> # acts,
                                r)))
                else chain_onerror env s arguments))))"

text \<open>Line 176, the body of the \<^verbatim>\<open>try\<close>: \<^verbatim>\<open>e && 'reason' in e ? e.reason : e\<close>.\<close>

definition probe_reason :: "jsval \<Rightarrow> exn + jsval" where
  "probe_reason e =
     (if truthy e
      then (case HasProperty ''reason'' e of
              Inl x \<Rightarrow> Inl x
            | Inr exposed \<Rightarrow> if exposed then Get e ''reason'' else Inr e)
      else Inr e)"

text \<open>Lines 174--177: \<^verbatim>\<open>let error = e; try { error = ... } catch (_oO) {}\<close>.\<close>

definition extract_reason :: "jsval \<Rightarrow> jsval" where
  "extract_reason e = (case probe_reason e of Inl x \<Rightarrow> e | Inr v \<Rightarrow> v)"

text \<open>Lines 192--194.\<close>

definition chain_onunhandledrejection :: "state \<Rightarrow> jsval list \<Rightarrow> action list" where
  "chain_onunhandledrejection s arguments =
     (case oldOnUnhandledRejectionHandler s of
        Some h \<Rightarrow> [CallHandler h arguments]
      | None \<Rightarrow> [])"

text \<open>The closure stored in \<^verbatim>\<open>window.onunhandledrejection\<close>, lines 167--195.\<close>

definition onunhandledrejection_wrapper ::
    "env \<Rightarrow> state \<Rightarrow> jsval list \<Rightarrow> action list \<times> (exn + jsval)" where
  "onunhandledrejection_wrapper env s arguments =
     (if \<not> hasIntegration env then ([], Inr undefined_value)
      else
        (let error = extract_reason (arg arguments 0)
         in case isFailedOwnDelivery error of
              Inl x \<Rightarrow> ([], Inl x)
            | Inr own \<Rightarrow>
                if shouldIgnoreOnError env \<or> own then ([], Inr undefined_value)
                else
                  (let stack = (computeStackTrace env error)
                                 \<lparr> st_mechanism := ''onunhandledrejection'' \<rparr>
                   in case eventFromGlobalHandler env stack ''onunhandledrejection'' error of
                        Inl x \<Rightarrow> ([], Inl x)
                      | Inr (event, stack') \<Rightarrow>
                          (CaptureEvent event
                             \<lparr> hint_stack = stack', originalException = error \<rparr>
                           # chain_onunhandledrejection s arguments,
                           Inr undefined_value))))"

text \<open>The submissions among the actions of an invocation.\<close>

fun is_capture :: "action \<Rightarrow> bool" where
  "is_capture (CaptureEvent event hint) = True"
| "is_capture (CallHandler h arguments) = False"

definition submissions :: "action list \<Rightarrow> action list" where
  "submissions acts = filter is_capture acts"

text \<open>What the claims below speak about: an exception entry whose mechanism is unhandled
  and carries the name of the given hook.\<close>

definition unhandled_by :: "string \<Rightarrow> ExceptionValue \<Rightarrow> bool" where
  "unhandled_by handler v =
     (case ex_mechanism v of
        None \<Rightarrow> False
      | Some m \<Rightarrow> \<not> mech_handled m \<and> mech_type m = handler)"

text \<open>The self-delivery marker: the field \<^verbatim>\<open>__sentry_own_request__\<close> reads as \<^verbatim>\<open>true\<close>.\<close>

definition carries_own_request_marker :: "jsval \<Rightarrow> bool" where
  "carries_own_request_marker v = (Get v ''__sentry_own_request__'' = Inr (JBool True))"

section \<open>Sample surroundings\<close>

text \<open>
  A concrete environment and concrete states, on which the definitions above are evaluated:
  a stack computation that recovers nothing but the original value, a conversion that
  yields one exception entry from the name and message of the trace, identity sanitizers,
  keys joined by a comma, and host handlers that return \<^verbatim>\<open>true\<close>.
\<close>

fun join_keys :: "string list \<Rightarrow> string" where
  "join_keys [] = ''[object has no keys]''"
| "join_keys [k] = k"
| "join_keys (k # ks) = k @ '', '' @ join_keys ks"

definition sample_env :: env where
  "sample_env =
     \<lparr> hasIntegration = True,
       shouldIgnoreOnError = False,
       client = None,
       getLocationHref = ''http://localhost/'',
       computeStackTrace =
         (\<lambda>v. \<lparr> st_mechanism = [], st_message = JStr ''No error message'', st_mode = ''failed'',
                 st_name = undefined_value, st_stack = [], st_original = v \<rparr>),
       eventFromStacktrace =
         (\<lambda>t. \<lparr> ev_level = None,
                 ev_values = [\<lparr> ex_type = st_name t, ex_value = st_message t,
                                ex_stacktrace = Some (st_stack t), ex_mechanism = None \<rparr>],
                 ev_extra = [] \<rparr>),
       normalize_util = (\<lambda>v. v),
       JSON_stringify = (\<lambda>v. ''{}''),
       truncate_util = (\<lambda>text n. take n text),
       normalizeToSize = (\<lambda>v. v),
       keysToEventMessage = join_keys,
       apply_handler = (\<lambda>h arguments. JBool True) \<rparr>"

definition fresh_state :: state where
  "fresh_state =
     \<lparr> options_onerror = True,
       options_onunhandledrejection = True,
       oldOnErrorHandler = None,
       oldOnUnhandledRejectionHandler = None,
       onErrorHandlerInstalled = False,
       onUnhandledRejectionHandlerInstalled = False,
       global_onerror = Some (HostFunction 0),
       global_onunhandledrejection = Some (HostFunction 1),
       Error_stackTraceLimit = 10,
       logger_output = [] \<rparr>"

definition installed_state :: state where
  "installed_state = setupOnce fresh_state"

text \<open>A failure that comes from a delivery attempt of the engine itself, and the rejection
  event that wraps it.\<close>

definition own_request_error :: jsval where
  "own_request_error =
     Obj ErrorObject [(''__sentry_own_request__'', Value (JBool True))]
                     [(''message'', Value (JStr ''Failed to fetch''))]"

definition own_request_rejection :: jsval where
  "own_request_rejection = Obj PlainObject [] [(''reason'', Value own_request_error)]"

text \<open>The arguments of a synchronous failure without an error object, and the rejection of
  a promise with the plain object \<^verbatim>\<open>{b: 1, a: 2}\<close>.\<close>

definition plain_onerror_arguments :: "jsval list" where
  "plain_onerror_arguments =
     [JStr ''Uncaught TypeError: x is not a function'', JStr ''http://localhost/app.js'',
      Prim (Number 3), Prim (Number 7), undefined_value]"

definition plain_reason :: jsval where
  "plain_reason = Obj PlainObject [(''b'', Value (Prim (Number 1))), (''a'', Value (Prim (Number 2)))] []"

definition plain_rejection :: jsval where
  "plain_rejection = Obj PlainObject [] [(''reason'', Value plain_reason)]"

text \<open>A trace whose message is an event object and not a string (the case that lines
  207--209 of the source describe).\<close>

definition event_message_trace :: StackTrace where
  "event_message_trace =
     synthetic_stack ''http://localhost/''
       (Obj PlainObject [(''isTrusted'', Value (JBool True))] [(''type'', Value (JStr ''error''))])
       undefined_value undefined_value undefined_value"

text \<open>The trace that the rejection wrapper hands to event building for a given reason, in
  the sample environment.\<close>

definition sample_rejection_trace :: "jsval \<Rightarrow> StackTrace" where
  "sample_rejection_trace v =
     (computeStackTrace sample_env v)\<lparr> st_mechanism := ''onunhandledrejection'' \<rparr>"

text \<open>A trace whose message is an event object that carries the error, and with it the
  message, inside.\<close>

definition nested_message_trace :: StackTrace where
  "nested_message_trace =
     synthetic_stack ''http://localhost/''
       (Obj PlainObject []
          [(''error'', Value (Obj ErrorObject [] [(''message'', Value (JStr ''inner failure''))]))])
       undefined_value undefined_value undefined_value"

section \<open>Patterns and line terminators\<close>

text \<open>A pattern none of whose literals and classes contains a line terminator; a
  continuation that fails on every input holding a line terminator; a continuation that
  accepts every input without one.\<close>

fun terminator_free :: "regex \<Rightarrow> bool" where
  "terminator_free (Lit w) = (\<forall>x \<in> set w. \<not> line_terminator x)"
| "terminator_free (CharClass cs) = (\<forall>x \<in> set cs. \<not> line_terminator x)"
| "terminator_free DotStar = True"
| "terminator_free EndOfInput = True"
| "terminator_free (Seq a b) = (terminator_free a \<and> terminator_free b)"
| "terminator_free (Alt a b) = (terminator_free a \<and> terminator_free b)"
| "terminator_free (Opt a) = terminator_free a"
| "terminator_free (Group n a) = terminator_free a"

definition fails_on_terminator :: "cont \<Rightarrow> bool" where
  "fails_on_terminator k = (\<forall>s c. (\<exists>x \<in> set s. line_terminator x) \<longrightarrow> k s c = None)"

definition accepts_one_line :: "cont \<Rightarrow> bool" where
  "accepts_one_line k = (\<forall>s c. (\<forall>x \<in> set s. \<not> line_terminator x) \<longrightarrow> k s c \<noteq> None)"

section \<open>Traces before and after event building\<close>

text \<open>Two traces that agree on every field but the message, and the traces that an
  invocation hands to \<^verbatim>\<open>captureEvent\<close> in the hint.\<close>

definition same_but_message :: "StackTrace \<Rightarrow> StackTrace \<Rightarrow> bool" where
  "same_but_message t t' =
     (st_mechanism t' = st_mechanism t \<and> st_mode t' = st_mode t \<and> st_name t' = st_name t
      \<and> st_stack t' = st_stack t \<and> st_original t' = st_original t)"

fun submitted_traces :: "action list \<Rightarrow> StackTrace list" where
  "submitted_traces [] = []"
| "submitted_traces (CaptureEvent event hint # acts) = hint_stack hint # submitted_traces acts"
| "submitted_traces (CallHandler h arguments # acts) = submitted_traces acts"

section \<open>When the failure-label pattern matches\<close>

lemma fails_on_terminatorD:
  "fails_on_terminator k \<Longrightarrow> x \<in> set s \<Longrightarrow> line_terminator x \<Longrightarrow> k s c = None"
  unfolding fails_on_terminator_def by blast

lemma fails_on_terminatorI:
  "(\<And>s c x. x \<in> set s \<Longrightarrow> line_terminator x \<Longrightarrow> k s c = None) \<Longrightarrow> fails_on_terminator k"
  unfolding fails_on_terminator_def by blast

lemma greedy_dots_fails:
  assumes k: "fails_on_terminator k"
  shows "x \<in> set s \<Longrightarrow> line_terminator x \<Longrightarrow> greedy_dots k s c = None"
proof (induction s)
  case Nil
  then show ?case by simp
next
  case (Cons y ys)
  have here: "k (y # ys) c = None"
    using fails_on_terminatorD [OF k Cons.prems] .
  show ?case
  proof (cases "line_terminator y")
    case True
    then show ?thesis by (simp add: here)
  next
    case False
    with Cons.prems have "x \<in> set ys" by auto
    then have "greedy_dots k ys c = None" using Cons.IH Cons.prems(2) by simp
    then show ?thesis by (simp add: here)
  qed
qed

lemma prefix_drop_terminator:
  assumes "prefix w s" and "\<forall>y \<in> set w. \<not> line_terminator y"
    and "x \<in> set s" and "line_terminator x"
  shows "x \<in> set (drop (length w) s)"
proof -
  from assms(1) obtain t where s: "s = w @ t" by (auto simp: prefix_def)
  show ?thesis using assms(2-4) by (auto simp: s)
qed

lemma rmatch_fails_on_terminator:
  "terminator_free r \<Longrightarrow> fails_on_terminator k \<Longrightarrow> fails_on_terminator (rmatch r k)"
proof (induction r arbitrary: k)
  case (Lit w)
  show ?case
  proof (rule fails_on_terminatorI)
    fix s c x
    assume x: "x \<in> set s" "line_terminator x"
    show "rmatch (Lit w) k s c = None"
    proof (cases "prefix w s")
      case True
      with Lit.prems(1) x have "x \<in> set (drop (length w) s)"
        by (simp add: prefix_drop_terminator)
      then have "k (drop (length w) s) c = None"
        using fails_on_terminatorD [OF Lit.prems(2)] x(2) by blast
      with True show ?thesis by simp
    next
      case False
      then show ?thesis by simp
    qed
  qed
next
  case (CharClass cs)
  show ?case
  proof (rule fails_on_terminatorI)
    fix s c x
    assume x: "x \<in> set s" "line_terminator x"
    show "rmatch (CharClass cs) k s c = None"
    proof (cases s)
      case Nil
      then show ?thesis by simp
    next
      case (Cons y ys)
      show ?thesis
      proof (cases "y \<in> set cs")
        case True
        with CharClass.prems(1) have "\<not> line_terminator y" by simp
        with x Cons have "x \<in> set ys" by auto
        then have "k ys c = None"
          using fails_on_terminatorD [OF CharClass.prems(2)] x(2) by blast
        with Cons True show ?thesis by simp
      next
        case False
        with Cons show ?thesis by simp
      qed
    qed
  qed
next
  case DotStar
  show ?case
    by (rule fails_on_terminatorI) (simp add: greedy_dots_fails [OF DotStar.prems(2)])
next
  case EndOfInput
  show ?case
    by (rule fails_on_terminatorI) auto
next
  case (Seq a b)
  then show ?case by simp
next
  case (Alt a b)
  from Alt have a: "fails_on_terminator (rmatch a k)" and b: "fails_on_terminator (rmatch b k)"
    by simp_all
  show ?case
    by (rule fails_on_terminatorI)
       (simp add: fails_on_terminatorD [OF a] fails_on_terminatorD [OF b])
next
  case (Opt a)
  from Opt have a: "fails_on_terminator (rmatch a k)" by simp
  show ?case
    by (rule fails_on_terminatorI)
       (simp add: fails_on_terminatorD [OF a] fails_on_terminatorD [OF Opt.prems(2)])
next
  case (Group n a)
  show ?case
  proof (rule fails_on_terminatorI)
    fix s c x
    assume x: "x \<in> set s" "line_terminator x"
    let ?k = "\<lambda>s' c'. k s' (c'(n \<mapsto> take (length s - length s') s))"
    have "fails_on_terminator ?k"
      by (rule fails_on_terminatorI) (rule fails_on_terminatorD [OF Group.prems(2)])
    with Group.IH Group.prems(1) have "fails_on_terminator (rmatch a ?k)" by simp
    from fails_on_terminatorD [OF this x] show "rmatch (Group n a) k s c = None"
      by simp
  qed
qed

lemma Opt_accepts_one_line:
  "accepts_one_line k \<Longrightarrow> accepts_one_line (rmatch (Opt a) k)"
  by (auto simp: accepts_one_line_def split: option.splits)

lemma greedy_dots_end:
  "greedy_dots (\<lambda>s' c'. if s' = [] then Some (f s' c') else None) s c =
     (if \<exists>x \<in> set s. line_terminator x then None else Some (f [] c))"
  by (induction s) auto

lemma tail_accepts_one_line:
  "accepts_one_line (rmatch (Seq (Group 2 DotStar) EndOfInput) (\<lambda>s' c. Some c))"
  by (simp add: accepts_one_line_def greedy_dots_end)

lemma ERROR_TYPES_RE_terminator_free: "terminator_free ERROR_TYPES_RE"
  by (simp add: ERROR_TYPES_RE_def line_terminator_def)

lemma Seq_fails_on_terminator:
  "terminator_free a \<Longrightarrow> fails_on_terminator (rmatch b k) \<Longrightarrow>
   fails_on_terminator (rmatch (Seq a b) k)"
  by (simp add: rmatch_fails_on_terminator)

lemma ERROR_TYPES_RE_no_match_iff:
  "String_match ERROR_TYPES_RE s = None \<longleftrightarrow> (\<exists>x \<in> set s. line_terminator x)"
proof
  assume none: "String_match ERROR_TYPES_RE s = None"
  have "accepts_one_line (rmatch ERROR_TYPES_RE (\<lambda>s' c. Some c))"
    unfolding ERROR_TYPES_RE_def rmatch.simps(5)
    by (intro Opt_accepts_one_line tail_accepts_one_line [unfolded rmatch.simps(5)])
  then have "(\<forall>x \<in> set s. \<not> line_terminator x) \<longrightarrow> String_match ERROR_TYPES_RE s \<noteq> None"
    unfolding accepts_one_line_def String_match_def by blast
  with none show "\<exists>x \<in> set s. line_terminator x" by blast
next
  assume "\<exists>x \<in> set s. line_terminator x"
  then obtain x where x: "x \<in> set s" "line_terminator x" by blast
  have eoi: "fails_on_terminator (rmatch EndOfInput (\<lambda>s' c. Some c))"
    by (rule fails_on_terminatorI) auto
  have "fails_on_terminator (rmatch ERROR_TYPES_RE (\<lambda>s' c. Some c))"
    unfolding ERROR_TYPES_RE_def
    by (intro Seq_fails_on_terminator eoi) (simp_all add: line_terminator_def)
  from fails_on_terminatorD [OF this x] show "String_match ERROR_TYPES_RE s = None"
    by (simp add: String_match_def)
qed

text \<open>
  So the pattern matches every message of one line, with or without a label, and fails
  exactly on the messages that hold a line feed or a carriage return.
\<close>

section \<open>Label parsing\<close>

text \<open>
  Claim C6. On the synthetic-trace path with a string message, the message
  \<^verbatim>\<open>"Uncaught TypeError: x is not a function"\<close> gives the name \<^verbatim>\<open>"TypeError"\<close> and the message
  \<^verbatim>\<open>"x is not a function"\<close>; the message \<^verbatim>\<open>"Script error."\<close> gives an undefined name and the
  message \<^verbatim>\<open>"Script error."\<close>; and whenever the failure-label pattern does not match, the
  name is undefined and the message is left exactly as given.
\<close>

theorem label_parsing:
  "st_name (synthetic_stack href (JStr ''Uncaught TypeError: x is not a function'') url line column)
     = JStr ''TypeError''
   \<and> st_message (synthetic_stack href (JStr ''Uncaught TypeError: x is not a function'') url line column)
     = JStr ''x is not a function''
   \<and> st_name (synthetic_stack href (JStr ''Script error.'') url line column) = undefined_value
   \<and> st_message (synthetic_stack href (JStr ''Script error.'') url line column) = JStr ''Script error.''
   \<and> (String_match ERROR_TYPES_RE m = None \<longrightarrow>
        st_name (synthetic_stack href (JStr m) url line column) = undefined_value
        \<and> st_message (synthetic_stack href (JStr m) url line column) = JStr m)"
proof -
  have a: "label_of_message (JStr ''Uncaught TypeError: x is not a function'')
             = (JStr ''TypeError'', JStr ''x is not a function'')"
    by (simp add: label_of_message_def String_match_def ERROR_TYPES_RE_def line_terminator_def)
  have b: "label_of_message (JStr ''Script error.'') = (undefined_value, JStr ''Script error.'')"
    by (simp add: label_of_message_def String_match_def ERROR_TYPES_RE_def line_terminator_def)
  have c: "String_match ERROR_TYPES_RE m = None \<Longrightarrow> label_of_message (JStr m) = (undefined_value, JStr m)"
    by (simp add: label_of_message_def)
  show ?thesis
    using c by (simp add: synthetic_stack_def a b)
qed

text \<open>The last part of C6 at a message of two lines, which the pattern does not match.\<close>

theorem label_parsing_witness:
  "String_match ERROR_TYPES_RE [CHR ''a'', CHR 0x0A, CHR ''b''] = None
   \<and> st_name (synthetic_stack [] (JStr [CHR ''a'', CHR 0x0A, CHR ''b'']) undefined_value undefined_value undefined_value) = undefined_value
   \<and> st_message (synthetic_stack [] (JStr [CHR ''a'', CHR 0x0A, CHR ''b'']) undefined_value undefined_value undefined_value)
       = JStr [CHR ''a'', CHR 0x0A, CHR ''b'']"
proof -
  have h: "String_match ERROR_TYPES_RE [CHR ''a'', CHR 0x0A, CHR ''b''] = None"
    by (simp add: String_match_def ERROR_TYPES_RE_def line_terminator_def)
  show ?thesis
    using h label_parsing [of "[]" undefined_value undefined_value undefined_value "[CHR ''a'', CHR 0x0A, CHR ''b'']"]
    by simp
qed

section \<open>Installing the hooks\<close>

lemma install_onerror_twice:
  "installGlobalOnErrorHandler (installGlobalOnErrorHandler s) = installGlobalOnErrorHandler s"
  by (simp add: installGlobalOnErrorHandler_def)

lemma install_onunhandledrejection_twice:
  "installGlobalOnUnhandledRejectionHandler (installGlobalOnUnhandledRejectionHandler s)
     = installGlobalOnUnhandledRejectionHandler s"
  by (simp add: installGlobalOnUnhandledRejectionHandler_def)

lemma funpow_idempotent:
  assumes "\<And>x. f (f x) = f x"
  shows "(f ^^ Suc n) x = f x"
  by (induction n) (simp_all add: assms)

text \<open>
  Claim C5. For each hook, installing again is a no-op: after any number of install calls
  (at least one) the state is the state after one call. From a state where the hook is not
  yet installed, the one handler captured is the handler that the host had installed, and
  the hook slot holds the wrapper.
\<close>

theorem install_idempotent:
  "(installGlobalOnErrorHandler ^^ Suc n) s = installGlobalOnErrorHandler s
   \<and> (installGlobalOnUnhandledRejectionHandler ^^ Suc n) s = installGlobalOnUnhandledRejectionHandler s
   \<and> (\<not> onErrorHandlerInstalled s \<longrightarrow>
        oldOnErrorHandler ((installGlobalOnErrorHandler ^^ Suc n) s) = global_onerror s
        \<and> global_onerror ((installGlobalOnErrorHandler ^^ Suc n) s) = Some OnErrorWrapper)
   \<and> (\<not> onUnhandledRejectionHandlerInstalled s \<longrightarrow>
        oldOnUnhandledRejectionHandler ((installGlobalOnUnhandledRejectionHandler ^^ Suc n) s)
          = global_onunhandledrejection s
        \<and> global_onunhandledrejection ((installGlobalOnUnhandledRejectionHandler ^^ Suc n) s)
          = Some OnUnhandledRejectionWrapper)"
proof -
  have a: "(installGlobalOnErrorHandler ^^ Suc n) s = installGlobalOnErrorHandler s"
    by (rule funpow_idempotent) (rule install_onerror_twice)
  have b: "(installGlobalOnUnhandledRejectionHandler ^^ Suc n) s
             = installGlobalOnUnhandledRejectionHandler s"
    by (rule funpow_idempotent) (rule install_onunhandledrejection_twice)
  show ?thesis
    unfolding a b
    by (simp add: installGlobalOnErrorHandler_def installGlobalOnUnhandledRejectionHandler_def)
qed

text \<open>C5 at a fresh instance, installed twice.\<close>

theorem install_idempotent_witness:
  "\<not> onErrorHandlerInstalled fresh_state
   \<and> \<not> onUnhandledRejectionHandlerInstalled fresh_state
   \<and> (installGlobalOnErrorHandler ^^ 2) fresh_state = installGlobalOnErrorHandler fresh_state
   \<and> oldOnErrorHandler ((installGlobalOnErrorHandler ^^ 2) fresh_state) = Some (HostFunction 0)
   \<and> global_onerror ((installGlobalOnErrorHandler ^^ 2) fresh_state) = Some OnErrorWrapper
   \<and> oldOnUnhandledRejectionHandler ((installGlobalOnUnhandledRejectionHandler ^^ 2) fresh_state)
       = Some (HostFunction 1)
   \<and> global_onunhandledrejection ((installGlobalOnUnhandledRejectionHandler ^^ 2) fresh_state)
       = Some OnUnhandledRejectionWrapper"
proof -
  have h: "\<not> onErrorHandlerInstalled fresh_state" "\<not> onUnhandledRejectionHandlerInstalled fresh_state"
    by (simp_all add: fresh_state_def)
  have g: "global_onerror fresh_state = Some (HostFunction 0)"
    "global_onunhandledrejection fresh_state = Some (HostFunction 1)"
    by (simp_all add: fresh_state_def)
  show ?thesis
    using h g install_idempotent [of 1 fresh_state]
    by (auto simp: numeral_2_eq_2)
qed

text \<open>
  Claim C10. Every call of \<^verbatim>\<open>setupOnce\<close> leaves \<^verbatim>\<open>Error.stackTraceLimit\<close> at 50, whatever the
  options and the installed-flags are, also on a repeated call; the value that the limit
  had before plays no part in what the call does; with both options disabled the
  assignment is all that the call does.
\<close>

theorem setupOnce_stackTraceLimit:
  "Error_stackTraceLimit (setupOnce s) = 50
   \<and> Error_stackTraceLimit (setupOnce (setupOnce s)) = 50
   \<and> setupOnce (s\<lparr> Error_stackTraceLimit := k \<rparr>) = setupOnce s
   \<and> (\<not> options_onerror s \<and> \<not> options_onunhandledrejection s \<longrightarrow>
        setupOnce s = s\<lparr> Error_stackTraceLimit := 50 \<rparr>)"
proof -
  have "Error_stackTraceLimit (setupOnce t) = 50" for t
    by (simp add: setupOnce_def Let_def installGlobalOnErrorHandler_def
        installGlobalOnUnhandledRejectionHandler_def logger_log_def)
  then show ?thesis
    by (simp add: setupOnce_def)
qed

text \<open>C10 at an instance with both hooks installed and both options switched off.\<close>

theorem setupOnce_stackTraceLimit_witness:
  "\<not> options_onerror (installed_state\<lparr> options_onerror := False, options_onunhandledrejection := False, Error_stackTraceLimit := 10 \<rparr>)
   \<and> \<not> options_onunhandledrejection (installed_state\<lparr> options_onerror := False, options_onunhandledrejection := False, Error_stackTraceLimit := 10 \<rparr>)
   \<and> setupOnce (installed_state\<lparr> options_onerror := False, options_onunhandledrejection := False, Error_stackTraceLimit := 10 \<rparr>)
       = installed_state\<lparr> options_onerror := False, options_onunhandledrejection := False, Error_stackTraceLimit := 50 \<rparr>"
  using setupOnce_stackTraceLimit [of "installed_state\<lparr> options_onerror := False, options_onunhandledrejection := False, Error_stackTraceLimit := 10 \<rparr>"]
  by simp

section \<open>Extracting the rejection reason\<close>

text \<open>
  Claim C7. Reason extraction of the rejection wrapper is a total function of its input and
  yields a value, never an exception: when the probe for \<^verbatim>\<open>reason\<close> throws, the input
  itself is the reason; when the input exposes \<^verbatim>\<open>reason\<close> and reading it succeeds, the
  reason is the value read; when the input exposes no \<^verbatim>\<open>reason\<close>, or is a primitive, the
  reason is the input itself. In every case the result is the input or the value of its
  \<^verbatim>\<open>reason\<close> property.
\<close>

theorem reason_extraction:
  "(probe_reason e = Inl x \<longrightarrow> extract_reason e = e)
   \<and> (HasProperty ''reason'' e = Inr True \<and> Get e ''reason'' = Inr v \<longrightarrow> extract_reason e = v)
   \<and> (HasProperty ''reason'' e = Inr False \<longrightarrow> extract_reason e = e)
   \<and> (isPrimitive e \<longrightarrow> extract_reason e = e)
   \<and> (extract_reason e = e \<or> Get e ''reason'' = Inr (extract_reason e))"
  by (cases e rule: truthy.cases)
     (auto simp: extract_reason_def probe_reason_def split: sum.splits option.splits slot.splits)

text \<open>
  C7 at a number (the \<^verbatim>\<open>in\<close> operator throws on it), at an object whose \<^verbatim>\<open>reason\<close> getter
  throws, at a rejection event, at a plain object without \<^verbatim>\<open>reason\<close> and at \<^verbatim>\<open>undefined\<close>.
\<close>

theorem reason_extraction_witness:
  "probe_reason (Prim (Number 42)) = Inl TypeError
   \<and> extract_reason (Prim (Number 42)) = Prim (Number 42)
   \<and> probe_reason (Obj PlainObject [] [(''reason'', ThrowingGetter)]) = Inl GetterError
   \<and> extract_reason (Obj PlainObject [] [(''reason'', ThrowingGetter)])
       = Obj PlainObject [] [(''reason'', ThrowingGetter)]
   \<and> HasProperty ''reason'' plain_rejection = Inr True
   \<and> Get plain_rejection ''reason'' = Inr plain_reason
   \<and> extract_reason plain_rejection = plain_reason
   \<and> HasProperty ''reason'' plain_reason = Inr False
   \<and> extract_reason plain_reason = plain_reason
   \<and> isPrimitive undefined_value
   \<and> extract_reason undefined_value = undefined_value"
proof -
  have a: "probe_reason (Prim (Number 42)) = Inl TypeError"
    "probe_reason (Obj PlainObject [] [(''reason'', ThrowingGetter)]) = Inl GetterError"
    by (simp_all add: probe_reason_def)
  have b: "HasProperty ''reason'' plain_rejection = Inr True"
    "Get plain_rejection ''reason'' = Inr plain_reason"
    "HasProperty ''reason'' plain_reason = Inr False"
    by (simp_all add: plain_rejection_def plain_reason_def)
  show ?thesis
    using a b
      reason_extraction [of "Prim (Number 42)" TypeError undefined_value]
      reason_extraction [of "Obj PlainObject [] [(''reason'', ThrowingGetter)]" GetterError undefined_value]
      reason_extraction [of plain_rejection TypeError plain_reason]
      reason_extraction [of plain_reason TypeError undefined_value]
      reason_extraction [of undefined_value TypeError undefined_value]
    by simp
qed

section \<open>Failures of the engine's own delivery\<close>

lemma marker_is_object:
  "carries_own_request_marker v \<Longrightarrow> truthy v \<and> isFailedOwnDelivery v = Inr True"
  by (cases v rule: truthy.cases)
     (simp_all add: carries_own_request_marker_def isFailedOwnDelivery_def)

lemma chain_onerror_no_submission:
  "submissions (fst (chain_onerror env s arguments)) = []"
  by (simp add: chain_onerror_def submissions_def split: option.splits)

text \<open>
  Claim C1. When the failure extracted from the arguments of a hook carries the marker
  \<^verbatim>\<open>__sentry_own_request__\<close> equal to \<^verbatim>\<open>true\<close>, the wrapper of that hook makes no call of
  \<^verbatim>\<open>captureEvent\<close>: for the synchronous hook the failure is the fifth argument (or its
  \<^verbatim>\<open>error\<close> field when that argument is an error event), for the rejection hook it is the
  extracted reason.
\<close>

theorem own_delivery_not_submitted:
  "(onerror_error (arg arguments 4) = Inr error \<and> carries_own_request_marker error \<longrightarrow>
      submissions (fst (onerror_wrapper env s arguments)) = [])
   \<and> (carries_own_request_marker (extract_reason (arg arguments 0)) \<longrightarrow>
      submissions (fst (onunhandledrejection_wrapper env s arguments)) = [])"
proof (intro conjI impI)
  assume "onerror_error (arg arguments 4) = Inr error \<and> carries_own_request_marker error"
  then have e: "onerror_error (arg arguments 4) = Inr error"
    and own: "isFailedOwnDelivery error = Inr True"
    by (simp_all add: marker_is_object)
  have nil: "submissions [] = []"
    by (simp add: submissions_def)
  show "submissions (fst (onerror_wrapper env s arguments)) = []"
    by (simp add: onerror_wrapper_def e own chain_onerror_no_submission nil
        split: sum.splits)
next
  assume "carries_own_request_marker (extract_reason (arg arguments 0))"
  then have own: "isFailedOwnDelivery (extract_reason (arg arguments 0)) = Inr True"
    by (simp add: marker_is_object)
  show "submissions (fst (onunhandledrejection_wrapper env s arguments)) = []"
    by (simp add: onunhandledrejection_wrapper_def own submissions_def)
qed

text \<open>
  C1 at an error object that carries the marker, given to the synchronous hook directly and
  to the rejection hook as the reason of a rejection event.
\<close>

theorem own_delivery_not_submitted_witness:
  "onerror_error (arg [JStr ''x'', undefined_value, undefined_value, undefined_value, own_request_error] 4)
     = Inr own_request_error
   \<and> carries_own_request_marker own_request_error
   \<and> carries_own_request_marker (extract_reason (arg [own_request_rejection] 0))
   \<and> submissions (fst (onerror_wrapper sample_env installed_state
        [JStr ''x'', undefined_value, undefined_value, undefined_value, own_request_error])) = []
   \<and> submissions (fst (onunhandledrejection_wrapper sample_env installed_state
        [own_request_rejection])) = []"
proof -
  have a: "onerror_error (arg [JStr ''x'', undefined_value, undefined_value, undefined_value, own_request_error] 4)
     = Inr own_request_error"
    by (simp add: arg_def onerror_error_def own_request_error_def)
  have b: "carries_own_request_marker own_request_error"
    by (simp add: carries_own_request_marker_def own_request_error_def)
  have c: "carries_own_request_marker (extract_reason (arg [own_request_rejection] 0))"
    by (simp add: carries_own_request_marker_def own_request_error_def own_request_rejection_def
        arg_def extract_reason_def probe_reason_def)
  show ?thesis
    using a b c
      own_delivery_not_submitted [of "[JStr ''x'', undefined_value, undefined_value, undefined_value, own_request_error]"
        own_request_error sample_env installed_state]
      own_delivery_not_submitted [of "[own_request_rejection]" own_request_error sample_env installed_state]
    by simp
qed

section \<open>The event that is built\<close>

lemma repair_message_frame:
  assumes "repair_message t = Inr t'"
  shows "same_but_message t t'"
  using assms
  by (auto simp: repair_message_def same_but_message_def split: if_splits sum.splits)

lemma repair_message_unchanged:
  assumes "repair_message t = Inr t'"
    and "isString (st_message t) \<or> st_mechanism t = ''onunhandledrejection''"
  shows "t' = t"
  using assms by (auto simp: repair_message_def split: if_splits)

lemma repair_message_string:
  assumes r: "repair_message t = Inr t'"
    and ns: "\<not> isString (st_message t)" and nm: "st_mechanism t \<noteq> ''onunhandledrejection''"
  shows "\<exists>e. Get (st_message t) ''error'' = Inr e
           \<and> (\<not> truthy e \<longrightarrow> st_message t' = JStr ''No error message'')
           \<and> (truthy e \<longrightarrow>
                (\<exists>m. Get e ''message'' = Inr m
                   \<and> st_message t' = (if isString m then m else JStr ''No error message'')))"
proof (cases "Get (st_message t) ''error''")
  case (Inl x)
  with r ns nm show ?thesis by (simp add: repair_message_def)
next
  case (Inr e)
  show ?thesis
  proof (cases "truthy e")
    case False
    with r ns nm Inr have "st_message t' = JStr ''No error message''"
      by (auto simp: repair_message_def)
    with Inr False show ?thesis by simp
  next
    case True
    show ?thesis
    proof (cases "Get e ''message''")
      case (Inl x)
      with r ns nm Inr True show ?thesis by (simp add: repair_message_def)
    next
      case m: (Inr m)
      with r ns nm Inr True
      have "st_message t' = (if isString m then m else JStr ''No error message'')"
        by (auto simp: repair_message_def)
      with Inr True m show ?thesis by simp
    qed
  qed
qed

lemma repair_message_throws:
  assumes "st_message t = undefined_value \<or> st_message t = Prim Null"
    and "st_mechanism t \<noteq> ''onunhandledrejection''"
  shows "repair_message t = Inl TypeError"
  using assms by (auto simp: repair_message_def)

lemma repair_message_mode:
  "repair_message t = Inr t' \<Longrightarrow> st_mode t' = st_mode t"
  by (auto simp: repair_message_def split: if_splits sum.splits)

lemma eventFromGlobalHandler_trace:
  assumes "eventFromGlobalHandler env t handler error = Inr (event, t')"
  shows "repair_message t = Inr t'"
  using assms
  by (auto simp: eventFromGlobalHandler_def Let_def split: sum.splits if_splits)

lemma incomplete_rejection_values:
  assumes "eventFromIncompleteRejection env t handler error = Inr event"
  shows "\<exists>v. ev_values event = [v] \<and> unhandled_by handler v"
  using assms
  by (auto simp: eventFromIncompleteRejection_def unhandled_by_def split: jsval.splits sum.splits)

lemma addExceptionTypeValue_values:
  assumes "length (ev_values event) \<le> 1"
  shows "\<exists>v. ev_values (addExceptionTypeValue event fv ft
                \<lparr> mech_data = d, mech_handled = False, mech_type = handler \<rparr>) = [v]
             \<and> unhandled_by handler v"
proof (cases "ev_values event")
  case Nil
  then show ?thesis
    by (simp add: addExceptionTypeValue_def unhandled_by_def)
next
  case (Cons v vs)
  with assms have "vs = []" by simp
  with Cons show ?thesis
    by (simp add: addExceptionTypeValue_def unhandled_by_def)
qed

lemma eventFromGlobalHandler_returns:
  assumes "isString (st_message t) \<or> st_mechanism t = ''onunhandledrejection''"
    and "\<forall>d. error \<noteq> Prim (Symbol d)"
  shows "\<exists>event. eventFromGlobalHandler env t handler error = Inr (event, t)"
proof -
  from assms(1) have r: "repair_message t = Inr t"
    by (auto simp: repair_message_def)
  have "\<exists>event. eventFromIncompleteRejection env t handler error = Inr event"
  proof (cases error)
    case (Prim p)
    with assms(2) obtain str where "ToString p = Inr str"
      by (cases p) auto
    with Prim show ?thesis
      by (simp add: eventFromIncompleteRejection_def)
  next
    case (Obj c own other)
    then show ?thesis
      by (simp add: eventFromIncompleteRejection_def)
  qed
  then show ?thesis
    by (auto simp: eventFromGlobalHandler_def r Let_def)
qed

lemma eventFromGlobalHandler_throws:
  assumes "st_message t = undefined_value \<or> st_message t = Prim Null"
    and "st_mechanism t \<noteq> ''onunhandledrejection''"
  shows "eventFromGlobalHandler env t handler error = Inl TypeError"
  by (simp add: eventFromGlobalHandler_def repair_message_throws [OF assms])

text \<open>
  So event building returns an event whenever the message of the trace is a string or the
  trace comes from the rejection hook, and the failure is not a symbol; it throws a
  TypeError at line 212 when the message is \<^verbatim>\<open>undefined\<close> or \<^verbatim>\<open>null\<close> and the trace does not come
  from the rejection hook.
\<close>

text \<open>
  Claim C2. For every trace and handler name, the event that \<^verbatim>\<open>_eventFromGlobalHandler\<close>
  returns (on the incomplete-rejection path as well) holds exactly one exception entry, and
  the mechanism of that entry has \<^verbatim>\<open>handled\<close> false and the handler name as its type. The
  conversion of the trace into the base event is a collaborator; it is taken to yield at
  most one exception entry.
\<close>

theorem event_has_one_unhandled_exception:
  assumes "eventFromGlobalHandler env stacktrace handler error = Inr (event, stacktrace')"
    and "\<forall>t. length (ev_values (eventFromStacktrace env t)) \<le> 1"
  shows "\<exists>v. ev_values event = [v] \<and> unhandled_by handler v"
proof (cases "handler = ''onunhandledrejection'' \<and> st_mode stacktrace' = ''failed''")
  case True
  with assms(1) have "eventFromIncompleteRejection env stacktrace' handler error = Inr event"
    by (auto simp: eventFromGlobalHandler_def split: sum.splits if_splits)
  then show ?thesis by (rule incomplete_rejection_values)
next
  case False
  from assms(2) have one: "length (ev_values (eventFromStacktrace env stacktrace')) \<le> 1"
    by simp
  from False assms(1) show ?thesis
    using addExceptionTypeValue_values [OF one]
    by (auto simp: eventFromGlobalHandler_def Let_def split: sum.splits if_splits)
qed

text \<open>
  C2 at the trace of the message \<^verbatim>\<open>"Script error."\<close>, with the sample conversion.
\<close>

theorem event_has_one_unhandled_exception_witness:
  "(\<forall>t. length (ev_values (eventFromStacktrace sample_env t)) \<le> 1)
   \<and> (case eventFromGlobalHandler sample_env
          (synthetic_stack [] (JStr ''Script error.'') undefined_value undefined_value undefined_value)
          ''onerror'' undefined_value of
         Inl x \<Rightarrow> False
       | Inr (event, t') \<Rightarrow>
           length (ev_values event) = 1 \<and> unhandled_by ''onerror'' (hd (ev_values event)))
   \<and> (case eventFromGlobalHandler sample_env
          ((computeStackTrace sample_env plain_reason)\<lparr> st_mechanism := ''onunhandledrejection'' \<rparr>)
          ''onunhandledrejection'' plain_reason of
         Inl x \<Rightarrow> False
       | Inr (event, t') \<Rightarrow>
           length (ev_values event) = 1
           \<and> unhandled_by ''onunhandledrejection'' (hd (ev_values event)))"
proof -
  have conv: "\<forall>t. length (ev_values (eventFromStacktrace sample_env t)) \<le> 1"
    by (simp add: sample_env_def)
  obtain event t' where built: "eventFromGlobalHandler sample_env
          (synthetic_stack [] (JStr ''Script error.'') undefined_value undefined_value undefined_value)
          ''onerror'' undefined_value = Inr (event, t')"
    by (simp add: eventFromGlobalHandler_def repair_message_def synthetic_stack_def
        label_of_message_def String_match_def ERROR_TYPES_RE_def line_terminator_def Let_def)
  obtain event2 t2 where built2: "eventFromGlobalHandler sample_env
          ((computeStackTrace sample_env plain_reason)\<lparr> st_mechanism := ''onunhandledrejection'' \<rparr>)
          ''onunhandledrejection'' plain_reason = Inr (event2, t2)"
    by (simp add: eventFromGlobalHandler_def repair_message_def eventFromIncompleteRejection_def
        sample_env_def plain_reason_def)
  from event_has_one_unhandled_exception [OF built conv]
    event_has_one_unhandled_exception [OF built2 conv] built built2 conv
  show ?thesis by auto
qed

lemma sorted_Array_sort: "sorted (Array_sort ks) \<and> set (Array_sort ks) = set ks"
  by (simp add: Array_sort_def)

lemma set_Object_keys: "set (Object_keys own) = fst ` set own \<and> distinct (Object_keys own)"
  by (simp add: Object_keys_def)

lemma digit_char_facts:
  assumes "d < 10"
  shows "decimal_digit (digit_char d)" and "of_char (digit_char d) - 48 = d"
    and "digit_char d = CHR ''0'' \<longleftrightarrow> d = 0"
proof -
  from assms have "d \<in> {0, 1, 2, 3, 4, 5, 6, 7, 8, 9}" by auto
  then show "decimal_digit (digit_char d)" and "of_char (digit_char d) - 48 = d"
    and "digit_char d = CHR ''0'' \<longleftrightarrow> d = 0"
    by (auto simp: digit_char_def decimal_digit_def)
qed

lemma decimal_value_snoc:
  "decimal_value (str @ [c]) = 10 * decimal_value str + (of_char c - 48)"
  by (simp add: decimal_value_def)

lemma digits_nonempty: "digits n \<noteq> []"
  by (subst digits.simps) simp

lemma digits_canonical: "canonical_decimal (digits n) n"
proof (induction n rule: digits.induct)
  case (1 n)
  show ?case
  proof (cases "n < 10")
    case True
    then have d: "digits n = [digit_char n]" by (subst digits.simps) simp
    show ?thesis
      unfolding d canonical_decimal_def
      using digit_char_facts [OF True] by (auto simp: decimal_value_def)
  next
    case False
    then have d: "digits n = digits (n div 10) @ [digit_char (n mod 10)]"
      by (subst digits.simps) simp
    from False 1 have ih: "canonical_decimal (digits (n div 10)) (n div 10)" by simp
    have m: "n mod 10 < 10" by simp
    from False have pos: "n div 10 \<noteq> 0" by auto
    have nz: "hd (digits (n div 10)) \<noteq> CHR ''0''"
    proof
      assume "hd (digits (n div 10)) = CHR ''0''"
      with ih have "digits (n div 10) = ''0''" by (simp add: canonical_decimal_def)
      with ih have "n div 10 = 0" by (simp add: canonical_decimal_def decimal_value_def)
      with pos show False by simp
    qed
    show ?thesis
      unfolding d canonical_decimal_def
      using ih nz digit_char_facts [OF m]
      by (simp add: canonical_decimal_def decimal_value_snoc digits_nonempty)
  qed
qed

lemma Number_toString_canonical:
  "\<exists>d. canonical_decimal d (nat \<bar>sint n\<bar>)
       \<and> Number_toString n = (if sint n < 0 then CHR ''-'' # d else d)"
proof (cases "sint n < 0")
  case True
  then have "nat (- sint n) = nat \<bar>sint n\<bar>" by simp
  with True show ?thesis
    using digits_canonical [of "nat \<bar>sint n\<bar>"] by (auto simp: Number_toString_def)
next
  case False
  then have "nat (sint n) = nat \<bar>sint n\<bar>" by simp
  with False show ?thesis
    using digits_canonical [of "nat \<bar>sint n\<bar>"] by (auto simp: Number_toString_def)
qed

lemma decimal_digit_value:
  assumes "decimal_digit c"
  shows "of_char c - 48 < (10 :: nat)" and "(of_char c - 48 = (0 :: nat)) = (c = CHR ''0'')"
  using assms by (auto simp: decimal_digit_def)

lemma decimal_digit_inject:
  assumes "decimal_digit x" "decimal_digit y" "(of_char x - 48 :: nat) = of_char y - 48"
  shows "x = y"
  using assms by (auto simp: decimal_digit_def)

lemma foldl_decimal_ge:
  "a \<le> foldl (\<lambda>a c. 10 * a + (of_char c - 48)) (a :: nat) cs"
proof (induction cs arbitrary: a)
  case Nil
  show ?case by simp
next
  case (Cons c cs)
  have "a \<le> 10 * a + (of_char c - 48)" by simp
  also have "\<dots> \<le> foldl (\<lambda>a c. 10 * a + (of_char c - 48)) (10 * a + (of_char c - 48)) cs"
    by (rule Cons.IH)
  finally show ?case by simp
qed

lemma decimal_value_pos:
  assumes "str \<noteq> []" "list_all decimal_digit str" "hd str \<noteq> CHR ''0''"
  shows "0 < decimal_value str"
proof -
  from assms(1) obtain c cs where str: "str = c # cs" by (cases str) auto
  with assms have "decimal_digit c" "c \<noteq> CHR ''0''" by simp_all
  then have "0 < (of_char c - 48 :: nat)"
    using decimal_digit_value(2) [of c] by simp
  also have "\<dots> \<le> decimal_value str"
    unfolding str decimal_value_def using foldl_decimal_ge [of "of_char c - 48" cs] by simp
  finally show ?thesis .
qed

lemma canonical_decimal_butlast:
  assumes "canonical_decimal (as @ [x]) n" "as \<noteq> []"
  shows "canonical_decimal as (n div 10)" and "of_char x - 48 = n mod 10" and "decimal_digit x"
proof -
  from assms(1) have dig: "list_all decimal_digit as" "decimal_digit x"
    by (simp_all add: canonical_decimal_def)
  from assms(1) have val: "10 * decimal_value as + (of_char x - 48) = n"
    by (simp add: canonical_decimal_def decimal_value_snoc)
  from assms(1) have hd0: "hd (as @ [x]) = CHR ''0'' \<longrightarrow> as @ [x] = ''0''"
    by (simp add: canonical_decimal_def)
  define v :: nat where "v = of_char x - 48"
  define w where "w = decimal_value as"
  have v: "v < 10" unfolding v_def by (rule decimal_digit_value(1) [OF dig(2)])
  from val have n: "n = 10 * w + v" by (simp add: v_def w_def)
  from v show "of_char x - 48 = n mod 10" unfolding n v_def [symmetric] by simp
  from v have w: "w = n div 10" unfolding n by simp
  from hd0 assms(2) have "hd as \<noteq> CHR ''0''" by (cases as) auto
  with w dig(1) assms(2) show "canonical_decimal as (n div 10)"
    by (simp add: canonical_decimal_def w_def)
  show "decimal_digit x" by (rule dig(2))
qed

lemma canonical_decimal_single:
  assumes "canonical_decimal [x] n"
  shows "n < 10" and "of_char x - 48 = n" and "decimal_digit x"
proof -
  from assms show x: "decimal_digit x" by (simp add: canonical_decimal_def)
  from assms show v: "of_char x - 48 = n" by (simp add: canonical_decimal_def decimal_value_def)
  from decimal_digit_value(1) [OF x] v show "n < 10" by simp
qed

lemma canonical_decimal_long:
  assumes "canonical_decimal (as @ [x]) n" "as \<noteq> []"
  shows "10 \<le> n"
proof -
  from assms have "hd as \<noteq> CHR ''0''"
    by (cases as) (auto simp: canonical_decimal_def)
  moreover from assms have "list_all decimal_digit as"
    by (simp add: canonical_decimal_def)
  ultimately have "hd as \<noteq> CHR ''0''" "list_all decimal_digit as" by simp_all
  with assms(2) have "0 < decimal_value as" by (simp add: decimal_value_pos)
  moreover from assms(1) have "n = 10 * decimal_value as + (of_char x - 48)"
    by (simp add: canonical_decimal_def decimal_value_snoc)
  ultimately show ?thesis by simp
qed

lemma canonical_decimal_unique:
  "canonical_decimal a n \<Longrightarrow> canonical_decimal b n \<Longrightarrow> a = b"
proof (induction a arbitrary: b n rule: rev_induct)
  case Nil
  then show ?case by (simp add: canonical_decimal_def)
next
  case (snoc x as)
  from snoc.prems(2) have "b \<noteq> []" by (simp add: canonical_decimal_def)
  then obtain bs y where b: "b = bs @ [y]" by (cases b rule: rev_cases) auto
  show ?case
  proof (cases "as = []")
    case True
    with snoc.prems(1) have n: "n < 10" "of_char x - 48 = n" "decimal_digit x"
      by (simp_all add: canonical_decimal_single)
    have "bs = []"
    proof (rule ccontr)
      assume "bs \<noteq> []"
      with snoc.prems(2) b have "10 \<le> n" by (simp add: canonical_decimal_long)
      with n show False by simp
    qed
    with snoc.prems(2) b have "of_char y - 48 = n" "decimal_digit y"
      by (simp_all add: canonical_decimal_single)
    with n have "x = y" by (simp add: decimal_digit_inject)
    with True \<open>bs = []\<close> b show ?thesis by simp
  next
    case False
    note a = canonical_decimal_butlast [OF snoc.prems(1) False]
    have "bs \<noteq> []"
    proof
      assume "bs = []"
      with snoc.prems(2) b have "n < 10" by (simp add: canonical_decimal_single)
      moreover from snoc.prems(1) False have "10 \<le> n" by (rule canonical_decimal_long)
      ultimately show False by simp
    qed
    note c = canonical_decimal_butlast [OF snoc.prems(2) [unfolded b] this]
    from a(1) c(1) have "as = bs" by (rule snoc.IH)
    moreover from a(2,3) c(2,3) have "x = y" by (simp add: decimal_digit_inject)
    ultimately show ?thesis by (simp add: b)
  qed
qed

text \<open>
  So a natural number has exactly one decimal numeral, and \<open>digits\<close> writes it.
\<close>

lemma ToString_decimal:
  assumes "ToString p = Inr str"
  shows "(case p of
            Undefined \<Rightarrow> str = ''undefined''
          | Null \<Rightarrow> str = ''null''
          | Boolean b \<Rightarrow> str = (if b then ''true'' else ''false'')
          | Number n \<Rightarrow>
              (\<exists>d. canonical_decimal d (nat \<bar>sint n\<bar>)
                  \<and> str = (if sint n < 0 then CHR ''-'' # d else d))
          | Str s \<Rightarrow> str = s
          | Symbol d \<Rightarrow> False)"
proof (cases p)
  case (Number n)
  with assms have "str = Number_toString n" by simp
  with Number_toString_canonical [of n]
  have "\<exists>d. canonical_decimal d (nat \<bar>sint n\<bar>)
           \<and> str = (if sint n < 0 then CHR ''-'' # d else d)"
    by simp
  then show ?thesis
    unfolding Number by simp
qed (use assms in auto)

text \<open>
  Claim C8. When the handler name is \<^verbatim>\<open>onunhandledrejection\<close> and the mode of the trace is
  \<^verbatim>\<open>failed\<close>, the event that is built is the one of \<^verbatim>\<open>_eventFromIncompleteRejection\<close>. Its level
  is the error severity. For a primitive reason its single exception entry has the type
  \<^verbatim>\<open>UnhandledRejection\<close> and the value "Non-Error promise rejection captured with value: "
  followed by the reason as a string: \<^verbatim>\<open>undefined\<close>, \<^verbatim>\<open>null\<close>, \<^verbatim>\<open>true\<close> or \<^verbatim>\<open>false\<close> by name, a
  number as its decimal numeral with a minus sign when negative, a string as it is; no
  event is built for a symbol. Otherwise the value is "Non-Error promise rejection
  captured with keys: " followed by the summary of the sorted own keys of the reason, and
  \<^verbatim>\<open>extra.__serialized__\<close> is the reason as normalized to size.
\<close>

theorem incomplete_rejection_event:
  assumes "st_mode stacktrace = ''failed''"
    and "eventFromGlobalHandler env stacktrace ''onunhandledrejection'' error
           = Inr (event, stacktrace')"
  shows "eventFromIncompleteRejection env stacktrace' ''onunhandledrejection'' error = Inr event
    \<and> ev_level event = Some Severity_Error
    \<and> (isPrimitive error \<longrightarrow>
         (\<exists>p str. error = Prim p
            \<and> (case p of
                  Undefined \<Rightarrow> str = ''undefined''
                | Null \<Rightarrow> str = ''null''
                | Boolean b \<Rightarrow> str = (if b then ''true'' else ''false'')
                | Number n \<Rightarrow>
                    (\<exists>d. canonical_decimal d (nat \<bar>sint n\<bar>)
                        \<and> str = (if sint n < 0 then CHR ''-'' # d else d))
                | Str s \<Rightarrow> str = s
                | Symbol d \<Rightarrow> False)
            \<and> ev_values event =
                [\<lparr> ex_type = JStr ''UnhandledRejection'',
                   ex_value = JStr (''Non-Error promise rejection captured with value: '' @ str),
                   ex_stacktrace = None,
                   ex_mechanism = Some \<lparr> mech_data = mechanism_data stacktrace',
                                         mech_handled = False,
                                         mech_type = ''onunhandledrejection'' \<rparr> \<rparr>]
            \<and> ev_extra event = []))
    \<and> (\<not> isPrimitive error \<longrightarrow>
         (\<exists>c own other. error = Obj c own other
            \<and> ev_values event =
                [\<lparr> ex_type = JStr ''UnhandledRejection'',
                   ex_value = JStr (''Non-Error promise rejection captured with keys: ''
                                    @ keysToEventMessage env (Array_sort (Object_keys own))),
                   ex_stacktrace = None,
                   ex_mechanism = Some \<lparr> mech_data = mechanism_data stacktrace',
                                         mech_handled = False,
                                         mech_type = ''onunhandledrejection'' \<rparr> \<rparr>]
            \<and> sorted (Array_sort (Object_keys own))
            \<and> set (Array_sort (Object_keys own)) = fst ` set own
            \<and> ev_extra event = [(''__serialized__'', normalizeToSize env error)]))"
proof -
  from assms(2) have r: "repair_message stacktrace = Inr stacktrace'"
    by (rule eventFromGlobalHandler_trace)
  with assms(1) have mode: "st_mode stacktrace' = ''failed''"
    by (simp add: repair_message_mode)
  from assms(2) r mode
  have inc: "eventFromIncompleteRejection env stacktrace' ''onunhandledrejection'' error = Inr event"
    by (auto simp: eventFromGlobalHandler_def split: sum.splits)
  show ?thesis
  proof (cases error)
    case (Prim p)
    with inc obtain str where str: "ToString p = Inr str"
      and ev: "ev_level event = Some Severity_Error"
        "ev_values event =
           [\<lparr> ex_type = JStr ''UnhandledRejection'',
              ex_value = JStr (''Non-Error promise rejection captured with value: '' @ str),
              ex_stacktrace = None,
              ex_mechanism = Some \<lparr> mech_data = mechanism_data stacktrace',
                                    mech_handled = False,
                                    mech_type = ''onunhandledrejection'' \<rparr> \<rparr>]"
        "ev_extra event = []"
      by (auto simp: eventFromIncompleteRejection_def split: sum.splits)
    from ToString_decimal [OF str] ev inc Prim show ?thesis
      by (simp del: append.simps)
  next
    case (Obj c own other)
    with inc show ?thesis
      by (auto simp: eventFromIncompleteRejection_def sorted_Array_sort set_Object_keys)
  qed
qed

lemma sample_primitive_rejection:
  assumes "ToString p = Inr str"
  shows "eventFromGlobalHandler sample_env (sample_rejection_trace (Prim p))
           ''onunhandledrejection'' (Prim p)
         = Inr (\<lparr> ev_level = Some Severity_Error,
                  ev_values =
                    [\<lparr> ex_type = JStr ''UnhandledRejection'',
                       ex_value = JStr (''Non-Error promise rejection captured with value: '' @ str),
                       ex_stacktrace = None,
                       ex_mechanism =
                         Some \<lparr> mech_data = [(''mode'', JStr ''failed''),
                                             (''message'', JStr ''No error message'')],
                                mech_handled = False,
                                mech_type = ''onunhandledrejection'' \<rparr> \<rparr>],
                  ev_extra = [] \<rparr>,
                sample_rejection_trace (Prim p))"
  using assms
  by (simp add: eventFromGlobalHandler_def repair_message_def eventFromIncompleteRejection_def
      sample_rejection_trace_def sample_env_def mechanism_data_def)

lemma sample_number_strings:
  "Number_toString 42 = ''42''" "Number_toString (- 107) = ''-107''" "Number_toString 0 = ''0''"
  by (simp_all add: Number_toString_def digits.simps digit_char_def)

lemma plain_reason_keys:
  "Array_sort (Object_keys [(''b'', Value (Prim (Number 1))), (''a'', Value (Prim (Number 2)))])
     = [''a'', ''b'']"
  by (simp add: Array_sort_def Object_keys_def less_eq_char_def)

text \<open>
  C8 at the reasons \<^verbatim>\<open>42\<close>, \<^verbatim>\<open>-107\<close>, \<^verbatim>\<open>0\<close>, \<^verbatim>\<open>undefined\<close>, \<^verbatim>\<open>null\<close>, \<^verbatim>\<open>false\<close>, \<^verbatim>\<open>"boom"\<close> and
  \<^verbatim>\<open>{b: 1, a: 2}\<close>, with the trace that the rejection wrapper computes for them.
\<close>

theorem incomplete_rejection_event_witness:
  "st_mode (sample_rejection_trace (Prim (Number 42))) = ''failed''
   \<and> isPrimitive (Prim (Number 42))
   \<and> \<not> isPrimitive plain_reason
   \<and> (case eventFromGlobalHandler sample_env (sample_rejection_trace (Prim (Number 42)))
          ''onunhandledrejection'' (Prim (Number 42)) of
         Inl x \<Rightarrow> False
       | Inr (event, t') \<Rightarrow>
           ev_level event = Some Severity_Error
           \<and> map ex_type (ev_values event) = [JStr ''UnhandledRejection'']
           \<and> map ex_value (ev_values event)
               = [JStr ''Non-Error promise rejection captured with value: 42''])
   \<and> (case eventFromGlobalHandler sample_env (sample_rejection_trace (Prim (Number (- 107))))
          ''onunhandledrejection'' (Prim (Number (- 107))) of
         Inl x \<Rightarrow> False
       | Inr (event, t') \<Rightarrow>
           map ex_value (ev_values event)
             = [JStr ''Non-Error promise rejection captured with value: -107''])
   \<and> (case eventFromGlobalHandler sample_env (sample_rejection_trace (Prim (Number 0)))
          ''onunhandledrejection'' (Prim (Number 0)) of
         Inl x \<Rightarrow> False
       | Inr (event, t') \<Rightarrow>
           map ex_value (ev_values event)
             = [JStr ''Non-Error promise rejection captured with value: 0''])
   \<and> (case eventFromGlobalHandler sample_env (sample_rejection_trace undefined_value)
          ''onunhandledrejection'' undefined_value of
         Inl x \<Rightarrow> False
       | Inr (event, t') \<Rightarrow>
           map ex_value (ev_values event)
             = [JStr ''Non-Error promise rejection captured with value: undefined''])
   \<and> (case eventFromGlobalHandler sample_env (sample_rejection_trace (Prim Null))
          ''onunhandledrejection'' (Prim Null) of
         Inl x \<Rightarrow> False
       | Inr (event, t') \<Rightarrow>
           map ex_value (ev_values event)
             = [JStr ''Non-Error promise rejection captured with value: null''])
   \<and> (case eventFromGlobalHandler sample_env (sample_rejection_trace (JBool False))
          ''onunhandledrejection'' (JBool False) of
         Inl x \<Rightarrow> False
       | Inr (event, t') \<Rightarrow>
           map ex_value (ev_values event)
             = [JStr ''Non-Error promise rejection captured with value: false''])
   \<and> (case eventFromGlobalHandler sample_env (sample_rejection_trace (JStr ''boom''))
          ''onunhandledrejection'' (JStr ''boom'') of
         Inl x \<Rightarrow> False
       | Inr (event, t') \<Rightarrow>
           map ex_value (ev_values event)
             = [JStr ''Non-Error promise rejection captured with value: boom''])
   \<and> (case eventFromGlobalHandler sample_env (sample_rejection_trace plain_reason)
          ''onunhandledrejection'' plain_reason of
         Inl x \<Rightarrow> False
       | Inr (event, t') \<Rightarrow>
           ev_level event = Some Severity_Error
           \<and> map ex_value (ev_values event)
               = [JStr ''Non-Error promise rejection captured with keys: a, b'']
           \<and> ev_extra event = [(''__serialized__'', plain_reason)])"
proof -
  have mode: "st_mode (sample_rejection_trace v) = ''failed''" for v
    by (simp add: sample_rejection_trace_def sample_env_def)
  have "ToString (Number 42) = Inr ''42''"
    by (simp add: sample_number_strings)
  note b1 = sample_primitive_rejection [OF this]
  obtain e2 where b2: "eventFromGlobalHandler sample_env (sample_rejection_trace plain_reason)
      ''onunhandledrejection'' plain_reason = Inr (e2, sample_rejection_trace plain_reason)"
    using eventFromGlobalHandler_returns [of "sample_rejection_trace plain_reason" plain_reason]
    by (auto simp: plain_reason_def sample_rejection_trace_def)
  have k: "keysToEventMessage sample_env [''a'', ''b''] = ''a, b''"
    "normalizeToSize sample_env plain_reason = plain_reason"
    by (simp_all add: sample_env_def)
  show ?thesis
    using incomplete_rejection_event [OF mode b1]
      incomplete_rejection_event [OF mode b2, unfolded plain_reason_def]
    by (auto simp: mode sample_primitive_rejection sample_number_strings
        b2 [unfolded plain_reason_def] k [unfolded plain_reason_def]
        plain_reason_keys plain_reason_def)
qed

section \<open>What happens to the trace\<close>

lemma chain_onerror_no_trace:
  "submitted_traces (fst (chain_onerror env s arguments)) = []"
  by (simp add: chain_onerror_def split: option.splits)

lemma chain_onerror_no_trace_pair:
  "chain_onerror env s arguments = (acts, r) \<Longrightarrow> submitted_traces acts = []"
  using chain_onerror_no_trace [of env s arguments] by simp

lemma chain_onunhandledrejection_no_trace:
  "submitted_traces (chain_onunhandledrejection s arguments) = []"
  by (simp add: chain_onunhandledrejection_def split: option.splits)

lemma onunhandledrejection_wrapper_traces:
  "submitted_traces (fst (onunhandledrejection_wrapper env s arguments)) = []
   \<or> submitted_traces (fst (onunhandledrejection_wrapper env s arguments))
       = [(computeStackTrace env (extract_reason (arg arguments 0)))
            \<lparr> st_mechanism := ''onunhandledrejection'' \<rparr>]"
proof -
  let ?t = "(computeStackTrace env (extract_reason (arg arguments 0)))
              \<lparr> st_mechanism := ''onunhandledrejection'' \<rparr>"
  have same: "t' = ?t"
    if "eventFromGlobalHandler env ?t ''onunhandledrejection'' error = Inr (event, t')"
    for error event t'
    using repair_message_unchanged [OF eventFromGlobalHandler_trace [OF that]] by simp
  show ?thesis
    by (auto simp: onunhandledrejection_wrapper_def Let_def chain_onunhandledrejection_no_trace
        same split: sum.splits)
qed

lemma onerror_wrapper_traces:
  assumes "u \<in> set (submitted_traces (fst (onerror_wrapper env s arguments)))"
  shows "\<exists>e m event.
           onerror_error (arg arguments 4) = Inr e
         \<and> onerror_message (arg arguments 0) = Inr m
         \<and> eventFromGlobalHandler env
             (onerror_stack env e m (arg arguments 1) (arg arguments 2) (arg arguments 3))
             ''onerror'' e = Inr (event, u)"
  using assms
  by (auto simp: onerror_wrapper_def Let_def chain_onerror_no_trace
      split: sum.splits if_splits prod.splits
      dest!: chain_onerror_no_trace_pair)

text \<open>
  Claim C9, as the code has it. Whenever event building returns an event, it leaves the
  mechanism, mode, name, stack and original of the trace as they are. It leaves the message
  as it is when the message is a string or the mechanism is \<^verbatim>\<open>onunhandledrejection\<close>.
  Otherwise the new message is \<^verbatim>\<open>message.error.message\<close> when \<^verbatim>\<open>message.error\<close> is truthy and that
  is a string, and \<^verbatim>\<open>"No error message"\<close> in every other case. Every trace that the rejection
  hook submits is the computed trace with its mechanism set; every trace that the
  synchronous hook submits is the one that event building returns for the computed trace.
\<close>

theorem trace_frame:
  "(eventFromGlobalHandler env t handler error = Inr (event, t') \<longrightarrow>
      same_but_message t t'
      \<and> (isString (st_message t) \<or> st_mechanism t = ''onunhandledrejection'' \<longrightarrow> t' = t)
      \<and> (\<not> isString (st_message t) \<and> st_mechanism t \<noteq> ''onunhandledrejection'' \<longrightarrow>
           (\<exists>e. Get (st_message t) ''error'' = Inr e
              \<and> (\<not> truthy e \<longrightarrow> st_message t' = JStr ''No error message'')
              \<and> (truthy e \<longrightarrow>
                   (\<exists>m. Get e ''message'' = Inr m
                      \<and> st_message t' = (if isString m then m else JStr ''No error message''))))))
   \<and> (\<forall>u \<in> set (submitted_traces (fst (onunhandledrejection_wrapper env s arguments))).
        u = (computeStackTrace env (extract_reason (arg arguments 0)))
              \<lparr> st_mechanism := ''onunhandledrejection'' \<rparr>)
   \<and> (\<forall>u \<in> set (submitted_traces (fst (onerror_wrapper env s arguments))).
        \<exists>e m ev. onerror_error (arg arguments 4) = Inr e
            \<and> onerror_message (arg arguments 0) = Inr m
            \<and> eventFromGlobalHandler env
                (onerror_stack env e m (arg arguments 1) (arg arguments 2) (arg arguments 3))
                ''onerror'' e = Inr (ev, u))"
proof -
  have building:
    "same_but_message t t'
     \<and> (isString (st_message t) \<or> st_mechanism t = ''onunhandledrejection'' \<longrightarrow> t' = t)
     \<and> (\<not> isString (st_message t) \<and> st_mechanism t \<noteq> ''onunhandledrejection'' \<longrightarrow>
          (\<exists>e. Get (st_message t) ''error'' = Inr e
             \<and> (\<not> truthy e \<longrightarrow> st_message t' = JStr ''No error message'')
             \<and> (truthy e \<longrightarrow>
                  (\<exists>m. Get e ''message'' = Inr m
                     \<and> st_message t' = (if isString m then m else JStr ''No error message'')))))"
    if b: "eventFromGlobalHandler env t handler error = Inr (event, t')"
  proof -
    note r = eventFromGlobalHandler_trace [OF b]
    show ?thesis
      using repair_message_frame [OF r] repair_message_unchanged [OF r]
        repair_message_string [OF r]
      by blast
  qed
  have rejection:
    "u = (computeStackTrace env (extract_reason (arg arguments 0)))
           \<lparr> st_mechanism := ''onunhandledrejection'' \<rparr>"
    if "u \<in> set (submitted_traces (fst (onunhandledrejection_wrapper env s arguments)))" for u
    using that onunhandledrejection_wrapper_traces [of env s arguments] by auto
  have synchronous:
    "\<exists>e m ev. onerror_error (arg arguments 4) = Inr e
         \<and> onerror_message (arg arguments 0) = Inr m
         \<and> eventFromGlobalHandler env
             (onerror_stack env e m (arg arguments 1) (arg arguments 2) (arg arguments 3))
             ''onerror'' e = Inr (ev, u)"
    if "u \<in> set (submitted_traces (fst (onerror_wrapper env s arguments)))" for u
    using that by (rule onerror_wrapper_traces)
  show ?thesis
    using building rejection synchronous by blast
qed

text \<open>
  Claim C9 as stated fails: for a trace of the synchronous hook whose message is an event
  object, event building replaces the message by \<^verbatim>\<open>"No error message"\<close>.
\<close>

theorem event_building_rewrites_message:
  "map_sum id snd (eventFromGlobalHandler sample_env event_message_trace ''onerror'' undefined_value)
     = Inr (event_message_trace\<lparr> st_message := JStr ''No error message'' \<rparr>)
   \<and> st_message event_message_trace \<noteq> JStr ''No error message''"
  by (simp add: eventFromGlobalHandler_def repair_message_def event_message_trace_def
      synthetic_stack_def label_of_message_def Let_def)

lemma sample_rejection_traces:
  "submitted_traces (fst (onunhandledrejection_wrapper sample_env installed_state [plain_rejection]))
     = [(computeStackTrace sample_env plain_reason)\<lparr> st_mechanism := ''onunhandledrejection'' \<rparr>]"
  by (simp add: onunhandledrejection_wrapper_def sample_env_def arg_def extract_reason_def
      probe_reason_def plain_rejection_def plain_reason_def isFailedOwnDelivery_def
      eventFromGlobalHandler_def repair_message_def eventFromIncompleteRejection_def
      chain_onunhandledrejection_no_trace Let_def)

lemma sample_onerror_traces:
  "submitted_traces (fst (onerror_wrapper sample_env installed_state plain_onerror_arguments))
     = [synthetic_stack ''http://localhost/'' (JStr ''Uncaught TypeError: x is not a function'')
          (JStr ''http://localhost/app.js'') (Prim (Number 3)) (Prim (Number 7))]"
  by (simp add: onerror_wrapper_def sample_env_def arg_def plain_onerror_arguments_def
      onerror_error_def onerror_message_def onerror_stack_def isFailedOwnDelivery_def
      eventFromGlobalHandler_def repair_message_def synthetic_stack_def label_of_message_def
      String_match_def ERROR_TYPES_RE_def line_terminator_def
      chain_onerror_def Let_def split: prod.splits option.splits)

lemma sample_repairs:
  "map_sum id snd (eventFromGlobalHandler sample_env nested_message_trace ''onerror'' undefined_value)
     = Inr (nested_message_trace\<lparr> st_message := JStr ''inner failure'' \<rparr>)"
  "map_sum id snd (eventFromGlobalHandler sample_env
       (synthetic_stack [] (JStr ''Script error.'') undefined_value undefined_value undefined_value)
       ''onerror'' undefined_value)
     = Inr (synthetic_stack [] (JStr ''Script error.'') undefined_value undefined_value undefined_value)"
  by (simp_all add: eventFromGlobalHandler_def repair_message_def nested_message_trace_def
      synthetic_stack_def label_of_message_def String_match_def ERROR_TYPES_RE_def
      line_terminator_def Let_def)

text \<open>
  The amended C9 at a trace whose message is an event object without an error inside, at a
  trace whose message is an event object with the error inside, at a trace with a string
  message, at a rejection with a plain object and at a synchronous failure with a string
  message.
\<close>

theorem trace_frame_witness:
  "\<not> isString (st_message event_message_trace)
   \<and> st_mechanism event_message_trace \<noteq> ''onunhandledrejection''
   \<and> Get (st_message event_message_trace) ''error'' = Inr undefined_value
   \<and> map_sum id snd
        (eventFromGlobalHandler sample_env event_message_trace ''onerror'' undefined_value)
       = Inr (event_message_trace\<lparr> st_message := JStr ''No error message'' \<rparr>)
   \<and> \<not> isString (st_message nested_message_trace)
   \<and> st_mechanism nested_message_trace \<noteq> ''onunhandledrejection''
   \<and> map_sum id snd
        (eventFromGlobalHandler sample_env nested_message_trace ''onerror'' undefined_value)
       = Inr (nested_message_trace\<lparr> st_message := JStr ''inner failure'' \<rparr>)
   \<and> isString (st_message
        (synthetic_stack [] (JStr ''Script error.'') undefined_value undefined_value undefined_value))
   \<and> map_sum id snd (eventFromGlobalHandler sample_env
        (synthetic_stack [] (JStr ''Script error.'') undefined_value undefined_value undefined_value)
        ''onerror'' undefined_value)
       = Inr (synthetic_stack [] (JStr ''Script error.'') undefined_value undefined_value undefined_value)
   \<and> set (submitted_traces (fst (onunhandledrejection_wrapper sample_env installed_state [plain_rejection])))
       = {(computeStackTrace sample_env plain_reason)\<lparr> st_mechanism := ''onunhandledrejection'' \<rparr>}
   \<and> set (submitted_traces (fst (onerror_wrapper sample_env installed_state plain_onerror_arguments)))
       = {synthetic_stack ''http://localhost/'' (JStr ''Uncaught TypeError: x is not a function'')
            (JStr ''http://localhost/app.js'') (Prim (Number 3)) (Prim (Number 7))}"
proof -
  have m: "\<not> isString (st_message event_message_trace)"
    "st_mechanism event_message_trace \<noteq> ''onunhandledrejection''"
    "Get (st_message event_message_trace) ''error'' = Inr undefined_value"
    "\<not> isString (st_message nested_message_trace)"
    "st_mechanism nested_message_trace \<noteq> ''onunhandledrejection''"
    "isString (st_message
        (synthetic_stack [] (JStr ''Script error.'') undefined_value undefined_value undefined_value))"
    by (simp_all add: event_message_trace_def nested_message_trace_def synthetic_stack_def
        label_of_message_def String_match_def ERROR_TYPES_RE_def line_terminator_def)
  have first: "map_sum id snd
        (eventFromGlobalHandler sample_env event_message_trace ''onerror'' undefined_value)
       = Inr (event_message_trace\<lparr> st_message := JStr ''No error message'' \<rparr>)"
    by (simp add: eventFromGlobalHandler_def repair_message_def event_message_trace_def
        synthetic_stack_def label_of_message_def Let_def)
  have returned: "\<exists>event. r = Inr (event, u)" if "map_sum id snd r = Inr u"
    for r :: "exn + Event \<times> StackTrace" and u
    using that by (cases r) auto
  from returned [OF first] obtain event1 where
    b1: "eventFromGlobalHandler sample_env event_message_trace ''onerror'' undefined_value
          = Inr (event1, event_message_trace\<lparr> st_message := JStr ''No error message'' \<rparr>)"
    by blast
  from returned [OF sample_repairs(1)] obtain event2 where
    b2: "eventFromGlobalHandler sample_env nested_message_trace ''onerror'' undefined_value
          = Inr (event2, nested_message_trace\<lparr> st_message := JStr ''inner failure'' \<rparr>)"
    by blast
  from returned [OF sample_repairs(2)] obtain event3 where
    b3: "eventFromGlobalHandler sample_env
           (synthetic_stack [] (JStr ''Script error.'') undefined_value undefined_value undefined_value)
           ''onerror'' undefined_value
          = Inr (event3,
              synthetic_stack [] (JStr ''Script error.'') undefined_value undefined_value undefined_value)"
    by blast
  show ?thesis
    using m b1 b2 b3 first sample_repairs sample_rejection_traces sample_onerror_traces
      trace_frame [of sample_env event_message_trace "''onerror''" undefined_value event1
        "event_message_trace\<lparr> st_message := JStr ''No error message'' \<rparr>"
        installed_state "[plain_rejection]"]
      trace_frame [of sample_env nested_message_trace "''onerror''" undefined_value event2
        "nested_message_trace\<lparr> st_message := JStr ''inner failure'' \<rparr>"
        installed_state plain_onerror_arguments]
      trace_frame [of sample_env
        "synthetic_stack [] (JStr ''Script error.'') undefined_value undefined_value undefined_value"
        "''onerror''" undefined_value event3
        "synthetic_stack [] (JStr ''Script error.'') undefined_value undefined_value undefined_value"
        installed_state plain_onerror_arguments]
    by simp
qed

section \<open>Chaining to the captured handler\<close>

lemma installed_state_handlers:
  "oldOnErrorHandler installed_state = Some (HostFunction 0)"
  "oldOnUnhandledRejectionHandler installed_state = Some (HostFunction 1)"
  by (simp_all add: installed_state_def setupOnce_def fresh_state_def logger_log_def
      installGlobalOnErrorHandler_def installGlobalOnUnhandledRejectionHandler_def)

lemma rejection_wrapper_inactive:
  "\<not> hasIntegration env \<Longrightarrow> onunhandledrejection_wrapper env s arguments = ([], Inr undefined_value)"
  by (simp add: onunhandledrejection_wrapper_def)

lemma rejection_wrapper_suppressed:
  "shouldIgnoreOnError env \<Longrightarrow> fst (onunhandledrejection_wrapper env s arguments) = []"
  by (simp add: onunhandledrejection_wrapper_def Let_def split: sum.splits)

lemma rejection_wrapper_own_delivery:
  "carries_own_request_marker (extract_reason (arg arguments 0)) \<Longrightarrow>
   fst (onunhandledrejection_wrapper env s arguments) = []"
  by (cases "extract_reason (arg arguments 0)" rule: truthy.cases)
     (simp_all add: onunhandledrejection_wrapper_def Let_def carries_own_request_marker_def
        isFailedOwnDelivery_def)

lemma onerror_wrapper_inactive:
  "\<not> hasIntegration env \<Longrightarrow> onerror_wrapper env s arguments = chain_onerror env s arguments"
  by (simp add: onerror_wrapper_def)

lemma onerror_wrapper_chains:
  assumes "onerror_wrapper env s arguments = (acts, Inr r)"
  shows "\<exists>caps. acts = caps @ fst (chain_onerror env s arguments)
               \<and> submissions caps = caps \<and> length caps \<le> 1
               \<and> snd (chain_onerror env s arguments) = Inr r"
  using assms
  by (auto simp: onerror_wrapper_def Let_def submissions_def
      split: if_splits sum.splits prod.splits)

text \<open>
  So the synchronous wrapper, whenever it returns, has called the captured handler last and
  returns its result; the rejection wrapper calls nothing at all when the integration is
  not active, when the failure is to be ignored, or when it comes from the engine's own
  delivery.
\<close>

text \<open>
  Claim C3 at a concrete invocation. With both hooks installed over the handlers of the
  host and the integration no longer active, the rejection wrapper returns without calling
  the captured handler, whereas the synchronous wrapper calls it with the original
  arguments and returns its result.
\<close>

theorem inactive_rejection_wrapper_drops_chain:
  "oldOnUnhandledRejectionHandler installed_state = Some (HostFunction 1)
   \<and> onunhandledrejection_wrapper (sample_env\<lparr> hasIntegration := False \<rparr>) installed_state
        [plain_rejection] = ([], Inr undefined_value)
   \<and> oldOnErrorHandler installed_state = Some (HostFunction 0)
   \<and> onerror_wrapper (sample_env\<lparr> hasIntegration := False \<rparr>) installed_state
        plain_onerror_arguments
       = ([CallHandler (HostFunction 0) plain_onerror_arguments], Inr (JBool True))"
  by (simp add: installed_state_handlers onunhandledrejection_wrapper_def onerror_wrapper_def
      chain_onerror_def sample_env_def)

text \<open>
  Claim C4 at concrete invocations. With the integration active and the handlers of the host
  captured, the rejection wrapper returns without calling the captured handler when
  \<^verbatim>\<open>shouldIgnoreOnError()\<close> is true and when the reason carries the self-delivery marker,
  whereas the synchronous wrapper calls the captured handler when \<^verbatim>\<open>shouldIgnoreOnError()\<close>
  is true.
\<close>

theorem suppressed_rejection_wrapper_drops_chain:
  "oldOnUnhandledRejectionHandler installed_state = Some (HostFunction 1)
   \<and> onunhandledrejection_wrapper (sample_env\<lparr> shouldIgnoreOnError := True \<rparr>) installed_state
        [plain_rejection] = ([], Inr undefined_value)
   \<and> onunhandledrejection_wrapper sample_env installed_state [own_request_rejection]
       = ([], Inr undefined_value)
   \<and> oldOnErrorHandler installed_state = Some (HostFunction 0)
   \<and> onerror_wrapper (sample_env\<lparr> shouldIgnoreOnError := True \<rparr>) installed_state
        plain_onerror_arguments
       = ([CallHandler (HostFunction 0) plain_onerror_arguments], Inr (JBool True))"
  by (simp add: installed_state_handlers onunhandledrejection_wrapper_def onerror_wrapper_def
      chain_onerror_def sample_env_def arg_def extract_reason_def probe_reason_def
      plain_rejection_def plain_reason_def own_request_rejection_def own_request_error_def
      isFailedOwnDelivery_def plain_onerror_arguments_def onerror_error_def onerror_message_def
      Let_def)

end
